theory Spec2Isabelle
  imports Complex_Main
begin

section \<open>Strings and thrown values\<close>

text \<open>
  A JavaScript string is modelled as a \<^typ>\<open>string\<close>; one \<^typ>\<open>char\<close> stands for one
  code unit below 256, which is what \<open>length\<close>, \<open>split\<close>, \<open>trim\<close> and \<open>includes\<close> of the
  worker see on such text.
\<close>

definition nl :: string where
  "nl = [CHR 0x0A]"

text \<open>The white space and line terminators that \<open>String.prototype.trim\<close> strips, below 256.\<close>

definition is_js_space :: "char \<Rightarrow> bool" where
  "is_js_space c =
     (c = CHR 0x09 \<or> c = CHR 0x0A \<or> c = CHR 0x0B \<or> c = CHR 0x0C \<or> c = CHR 0x0D
      \<or> c = CHR 0x20 \<or> c = CHR 0xA0)"

definition trim :: "string \<Rightarrow> string" where
  "trim s = rev (dropWhile is_js_space (rev (dropWhile is_js_space s)))"

text \<open>\<open>s.split(c)\<close> for a one-character separator: always at least one piece.\<close>

fun split_on :: "char \<Rightarrow> string \<Rightarrow> string list" where
  "split_on c [] = [[]]"
| "split_on c (x # xs) =
     (if x = c then [] # split_on c xs
      else (case split_on c xs of
              [] \<Rightarrow> [[x]]
            | piece # pieces \<Rightarrow> (x # piece) # pieces))"

definition starts_with :: "string \<Rightarrow> string \<Rightarrow> bool" where
  "starts_with s p = (take (length p) s = p)"

definition ends_with :: "string \<Rightarrow> string \<Rightarrow> bool" where
  "ends_with s p = starts_with (rev s) (rev p)"

text \<open>\<open>s.includes(p)\<close>.\<close>

fun str_includes :: "string \<Rightarrow> string \<Rightarrow> bool" where
  "str_includes [] p = (p = [])"
| "str_includes (x # xs) p = (starts_with (x # xs) p \<or> str_includes xs p)"

text \<open>\<open>xs.join(sep)\<close>.\<close>

fun join :: "string \<Rightarrow> string list \<Rightarrow> string" where
  "join sep [] = []"
| "join sep [x] = x"
| "join sep (x # y # ys) = x @ sep @ join sep (y # ys)"

text \<open>\<open>n.toString()\<close> for an integer.\<close>

fun show_nat :: "nat \<Rightarrow> string" where
  "show_nat n =
     (if n < 10 then [''0123456789'' ! n]
      else show_nat (n div 10) @ [''0123456789'' ! (n mod 10)])"

declare show_nat.simps [simp del]

definition show_int :: "int \<Rightarrow> string" where
  "show_int i = (if i < 0 then ''-'' @ show_nat (nat (- i)) else show_nat (nat i))"

text \<open>
  A thrown value: an \<open>Error\<close> object with its message, or any other value
  (the handlers test \<open>error instanceof Error\<close>). A call that may throw returns
  \<open>exn + 'a\<close>, with \<open>Inl\<close> the thrown value.
\<close>

datatype exn = Error (message: string) | NonError

section \<open>JSON values and the comparison with a number\<close>

definition is_digit :: "char \<Rightarrow> bool" where
  "is_digit c = (c \<in> set ''0123456789'')"

definition digit_value :: "char \<Rightarrow> nat" where
  "digit_value c = of_char c - 48"

text \<open>
  A value that \<open>JSON.parse\<close> can produce. A number is taken with its exact value; the
  rounding of a literal to a double is not modelled.
\<close>

datatype json =
    JNull
  | JBool bool
  | JNum rat
  | JStr string
  | JArr "json list"
  | JObj "(string \<times> json) list"

text \<open>\<open>Array.isArray\<close>.\<close>

definition is_array :: "json \<Rightarrow> bool" where
  "is_array v = (case v of JArr es \<Rightarrow> True | _ \<Rightarrow> False)"

text \<open>A stored array of integer timestamps, what the worker itself writes.\<close>

definition timestamps :: "int list \<Rightarrow> json" where
  "timestamps ts = JArr (map (\<lambda>t. JNum (of_int t)) ts)"

text \<open>The result of \<open>ToNumber\<close>.\<close>

datatype js_number = NaN | PosInf | NegInf | Num rat

text \<open>
  \<open>ToNumber\<close> of a string: surrounding white space is dropped; the empty string is 0;
  otherwise the text must be a decimal literal (optional sign, digits with an optional
  fraction and exponent, or \<open>Infinity\<close>) or an unsigned literal with prefix \<open>0x\<close>, \<open>0o\<close> or
  \<open>0b\<close>; anything else is \<open>NaN\<close>.
\<close>

definition decimal_value :: "string \<Rightarrow> nat" where
  "decimal_value ds = foldl (\<lambda>acc c. acc * 10 + digit_value c) 0 ds"

definition radix_digit :: "nat \<Rightarrow> char \<Rightarrow> nat option" where
  "radix_digit base c =
     (let v = (if is_digit c then Some (of_char c - 48)
               else if c \<in> set ''abcdef'' then Some (of_char c - 87)
               else if c \<in> set ''ABCDEF'' then Some (of_char c - 55)
               else None)
      in case v of
           None \<Rightarrow> None
         | Some d \<Rightarrow> if d < base then Some d else None)"

fun radix_value :: "nat \<Rightarrow> nat \<Rightarrow> string \<Rightarrow> nat option" where
  "radix_value base acc [] = Some acc"
| "radix_value base acc (c # cs) =
     (case radix_digit base c of
        None \<Rightarrow> None
      | Some d \<Rightarrow> radix_value base (acc * base + d) cs)"

definition radix_literal :: "nat \<Rightarrow> string \<Rightarrow> js_number" where
  "radix_literal base ds =
     (if ds = [] then NaN
      else case radix_value base 0 ds of None \<Rightarrow> NaN | Some n \<Rightarrow> Num (of_nat n))"

definition exponent_part :: "string \<Rightarrow> int option" where
  "exponent_part r =
     (if r = [] then Some 0
      else if hd r = CHR ''e'' \<or> hd r = CHR ''E'' then
        (let r' = tl r;
             negative = (r' \<noteq> [] \<and> hd r' = CHR ''-'');
             ds = (if r' \<noteq> [] \<and> (hd r' = CHR ''-'' \<or> hd r' = CHR ''+'') then tl r' else r')
         in if ds = [] then None
            else if list_all is_digit ds
              then Some (if negative then - int (decimal_value ds) else int (decimal_value ds))
            else None)
      else None)"

definition scale10 :: "rat \<Rightarrow> int \<Rightarrow> rat" where
  "scale10 q ex = (if ex \<ge> 0 then q * 10 ^ nat ex else q / 10 ^ nat (- ex))"

definition unsigned_decimal :: "string \<Rightarrow> rat option" where
  "unsigned_decimal u =
     (let ip = takeWhile is_digit u;
          r1 = dropWhile is_digit u;
          has_dot = (r1 \<noteq> [] \<and> hd r1 = CHR ''.'');
          fp = (if has_dot then takeWhile is_digit (tl r1) else []);
          r2 = (if has_dot then dropWhile is_digit (tl r1) else r1)
      in if ip = [] \<and> fp = [] then None
         else case exponent_part r2 of
                None \<Rightarrow> None
              | Some ex \<Rightarrow>
                  Some (scale10 (of_nat (decimal_value ip)
                                 + of_nat (decimal_value fp) / 10 ^ length fp) ex))"

definition str_to_number :: "string \<Rightarrow> js_number" where
  "str_to_number s =
     (let t = trim s in
      if t = [] then Num 0
      else if take 2 t = ''0x'' \<or> take 2 t = ''0X'' then radix_literal 16 (drop 2 t)
      else if take 2 t = ''0o'' \<or> take 2 t = ''0O'' then radix_literal 8 (drop 2 t)
      else if take 2 t = ''0b'' \<or> take 2 t = ''0B'' then radix_literal 2 (drop 2 t)
      else
        (let negative = (hd t = CHR ''-'');
             u = (if hd t = CHR ''-'' \<or> hd t = CHR ''+'' then tl t else t)
         in if u = ''Infinity'' then (if negative then NegInf else PosInf)
            else case unsigned_decimal u of
                   None \<Rightarrow> NaN
                 | Some q \<Rightarrow> Num (if negative then - q else q)))"

text \<open>
  Converting a parsed JSON value to a primitive throws a \<open>TypeError\<close> exactly when an
  object with an own property \<open>toString\<close> has to be converted: a parsed value is never
  callable, and the inherited \<open>valueOf\<close> returns the object itself. An array is converted
  by joining the texts of its elements, so it throws when one of them does.
\<close>

fun to_primitive_throws :: "json \<Rightarrow> bool" where
  "to_primitive_throws (JObj kvs) = (''toString'' \<in> set (map fst kvs))"
| "to_primitive_throws (JArr es) = (\<exists>e \<in> set es. to_primitive_throws e)"
| "to_primitive_throws v = False"

text \<open>
  \<open>ToNumber\<close> of a value whose conversion does not throw. An object becomes the text
  \<open>[object Object]\<close>, which is \<open>NaN\<close>. An array becomes the join of its elements with
  commas, \<open>null\<close> joined as the empty text: no element gives the empty text, which is 0;
  two or more give a text with a comma, which is \<open>NaN\<close>; a single element gives the text
  of that element, and the text of a number reads back as that number.
\<close>

fun to_number :: "json \<Rightarrow> js_number" where
  "to_number JNull = Num 0"
| "to_number (JBool b) = Num (if b then 1 else 0)"
| "to_number (JNum x) = Num x"
| "to_number (JStr s) = str_to_number s"
| "to_number (JObj kvs) = NaN"
| "to_number (JArr []) = Num 0"
| "to_number (JArr [e]) =
     (case e of JNull \<Rightarrow> Num 0 | JBool b \<Rightarrow> NaN | v \<Rightarrow> to_number e)"
| "to_number (JArr (e # e' # es)) = NaN"

definition number_gt :: "js_number \<Rightarrow> int \<Rightarrow> bool" where
  "number_gt n w =
     (case n of NaN \<Rightarrow> False | PosInf \<Rightarrow> True | NegInf \<Rightarrow> False | Num x \<Rightarrow> x > of_int w)"

text \<open>The callback \<open>time > windowStart\<close>, for any stored element.\<close>

definition is_after :: "json \<Rightarrow> int \<Rightarrow> exn + bool" where
  "is_after time windowStart =
     (if to_primitive_throws time
        then Inl (Error ''Cannot convert object to primitive value'')
      else Inr (number_gt (to_number time) windowStart))"

text \<open>\<open>requests.filter(...)\<close>: the elements in order; a throw of the callback ends it.\<close>

fun filter_after :: "int \<Rightarrow> json list \<Rightarrow> exn + json list" where
  "filter_after windowStart [] = Inr []"
| "filter_after windowStart (time # rest) =
     (case is_after time windowStart of
        Inl err \<Rightarrow> Inl err
      | Inr keep \<Rightarrow>
          (case filter_after windowStart rest of
             Inl err \<Rightarrow> Inl err
           | Inr kept \<Rightarrow> Inr (if keep then time # kept else kept)))"

section \<open>Requests, responses, configuration and collaborators\<close>

datatype body = Text string | Json "(string \<times> string) list"
  \<comment> \<open>\<open>Json kvs\<close> is \<open>JSON.stringify\<close> of the object with the string fields \<open>kvs\<close>\<close>

record response =
  status :: nat
  resp_body :: body
  resp_headers :: "(string \<times> string) list"

record request =
  req_headers :: "(string \<times> string) list"  \<comment> \<open>lower-case header names\<close>
  req_body :: string

definition header :: "request \<Rightarrow> string \<Rightarrow> string option" where
  "header req name = map_of (req_headers req) name"

text \<open>The \<open>Env\<close> interface; an unset variable and an empty one are both falsy, written \<open>''''\<close>.\<close>

record env =
  GITHUB_TOKEN :: string
  ANTHROPIC_API_KEY :: string
  BRAVE_SEARCH_API_KEY :: string
  GITHUB_WEBHOOK_SECRET :: string

text \<open>The calls the worker makes that the properties below observe, in call order.\<close>

datatype event =
    KvGet string
  | KvPut string "json list" int
  | Verify string string string
  | CreateComment string string int string

text \<open>
  The \<open>IssueCommentEvent\<close> fields the worker reads, each with its declared type when
  it is present; an absent or empty comment body is
  \<open>''''\<close>, both falsy.
\<close>

record pull_request_ref =
  pr_url :: "string option"

record issue =
  issue_number :: int
  pull_request :: "pull_request_ref option"

record comment =
  comment_body :: string
  created_at :: string

record webhook_payload =
  action :: "string option"
  issue_field :: "issue option"
  comment_field :: "comment option"

text \<open>
  \<open>JSON.parse(rawBody)\<close>: a throw, a value that is not an object (on which the
  \<open>in\<close> operator throws), or an object read as a webhook payload.
\<close>

datatype parsed = ParseThrows exn | NotAnObject | Object webhook_payload

text \<open>
  The collaborators outside the repository, as functions of their arguments: the clock,
  the key-value namespace, \<open>verify\<close> of the webhooks library and the JSON and date
  parsers of the runtime. \<open>kv_get\<close> is \<open>kv.get(key, {type: "json"})\<close>: a throw, \<open>null\<close> for
  an absent key, or the stored JSON value, whatever it is.
\<close>

record services =
  date_now :: int  \<comment> \<open>\<open>Date.now()\<close> in milliseconds at the rate-limit check\<close>
  kv_get :: "string \<Rightarrow> exn + json"
  kv_put :: "string \<Rightarrow> json list \<Rightarrow> int \<Rightarrow> exn + unit"
  verify :: "string \<Rightarrow> string \<Rightarrow> string \<Rightarrow> exn + bool"
  json_parse :: "string \<Rightarrow> parsed"
  date_parse :: "string \<Rightarrow> int option"
    \<comment> \<open>\<open>new Date(s).getTime()\<close>, \<open>None\<close> for \<open>NaN\<close>\<close>
  date_now_report :: int  \<comment> \<open>\<open>Date.now()\<close> when the report is composed\<close>

section \<open>The rate limiter\<close>

definition MAX_REQUESTS :: int where
  "MAX_REQUESTS = 100"

definition WINDOW_SIZE :: int where
  "WINDOW_SIZE = 3600"

text \<open>
  The body of the outer \<open>try\<close> of \<open>checkRateLimit\<close>. Both store calls sit in their own
  \<open>try\<close>/\<open>catch\<close>: a failed read leaves \<open>requests\<close> empty, the result of the write is dropped.
  Any stored array passes \<open>Array.isArray\<close> and is filtered as it is; a throw of the
  comparison leaves the body before the write.
\<close>

definition rateLimitBody :: "services \<Rightarrow> string \<Rightarrow> (exn + bool) \<times> event list" where
  "rateLimitBody svc ip =
     (let now = date_now svc div 1000;
          windowStart = now - WINDOW_SIZE;
          key = ''ratelimit:'' @ ip;
          requests = (case kv_get svc key of
                        Inl _ \<Rightarrow> []
                      | Inr storedRequests \<Rightarrow>
                          (case storedRequests of JArr es \<Rightarrow> es | _ \<Rightarrow> []))
      in case filter_after windowStart requests of
           Inl err \<Rightarrow> (Inl err, [KvGet key])
         | Inr kept \<Rightarrow>
             (let validRequests = kept @ [JNum (of_int now)];
                  written = (case kv_put svc key validRequests WINDOW_SIZE of
                               Inl _ \<Rightarrow> () | Inr _ \<Rightarrow> ())
              in (Inr (int (length validRequests) > MAX_REQUESTS),
                  [KvGet key, KvPut key validRequests WINDOW_SIZE])))"

text \<open>\<open>checkRateLimit\<close>: \<open>True\<close> when the request is to be blocked; the outer \<open>catch\<close> allows.\<close>

definition checkRateLimit :: "services \<Rightarrow> string \<Rightarrow> bool \<times> event list" where
  "checkRateLimit svc ip =
     (case rateLimitBody svc ip of
        (Inl _, tr) \<Rightarrow> (False, tr)
      | (Inr blocked, tr) \<Rightarrow> (blocked, tr))"

section \<open>The request validator\<close>

definition requiredEnvVars :: "string list" where
  "requiredEnvVars =
     [''GITHUB_TOKEN'', ''ANTHROPIC_API_KEY'', ''BRAVE_SEARCH_API_KEY'', ''GITHUB_WEBHOOK_SECRET'']"

definition env_lookup :: "env \<Rightarrow> string \<Rightarrow> string" where
  "env_lookup e key =
     (if key = ''GITHUB_TOKEN'' then GITHUB_TOKEN e
      else if key = ''ANTHROPIC_API_KEY'' then ANTHROPIC_API_KEY e
      else if key = ''BRAVE_SEARCH_API_KEY'' then BRAVE_SEARCH_API_KEY e
      else if key = ''GITHUB_WEBHOOK_SECRET'' then GITHUB_WEBHOOK_SECRET e
      else '''')"

definition missingEnvVars :: "env \<Rightarrow> string list" where
  "missingEnvVars e = filter (\<lambda>key. env_lookup e key = '''') requiredEnvVars"

definition clientIP :: "request \<Rightarrow> string" where
  "clientIP req =
     (case header req ''cf-connecting-ip'' of
        None \<Rightarrow> ''unknown''
      | Some v \<Rightarrow> if v = '''' then ''unknown'' else v)"

definition missing_env_response :: response where
  "missing_env_response =
     \<lparr>status = 500, resp_body = Text ''Missing required environment variables'',
      resp_headers = []\<rparr>"

definition rate_limit_response :: response where
  "rate_limit_response =
     \<lparr>status = 429, resp_body = Text ''Rate limit exceeded'',
      resp_headers = [(''Retry-After'', show_int WINDOW_SIZE)]\<rparr>"

definition no_signature_response :: response where
  "no_signature_response =
     \<lparr>status = 401, resp_body = Text ''No signature'', resp_headers = []\<rparr>"

definition invalid_signature_response :: response where
  "invalid_signature_response =
     \<lparr>status = 401, resp_body = Text ''Invalid signature'', resp_headers = []\<rparr>"

text \<open>
  \<open>validateRequest\<close>: \<open>Inr (Some r)\<close> is the rejecting response, \<open>Inr None\<close> is \<open>null\<close>
  (proceed), \<open>Inl\<close> a throw of \<open>verify\<close>; with the calls made.
\<close>

definition validateRequest ::
  "services \<Rightarrow> env \<Rightarrow> request \<Rightarrow> (exn + response option) \<times> event list" where
  "validateRequest svc e req =
     (if missingEnvVars e \<noteq> [] then (Inr (Some missing_env_response), [])
      else
        (case checkRateLimit svc (clientIP req) of
           (isOverLimit, tr) \<Rightarrow>
             if isOverLimit then (Inr (Some rate_limit_response), tr)
             else
               (case header req ''x-hub-signature-256'' of
                  None \<Rightarrow> (Inr (Some no_signature_response), tr)
                | Some signature \<Rightarrow>
                    if signature = '''' then (Inr (Some no_signature_response), tr)
                    else
                      (let rawBody = req_body req;
                           tr' = tr @ [Verify (GITHUB_WEBHOOK_SECRET e) rawBody signature]
                       in case verify svc (GITHUB_WEBHOOK_SECRET e) rawBody signature of
                            Inl err \<Rightarrow> (Inl err, tr')
                          | Inr isValid \<Rightarrow>
                              if \<not> isValid then (Inr (Some invalid_signature_response), tr')
                              else (Inr None, tr')))))"

section \<open>The search service and the fact-check engine\<close>

record web_result =
  web_title :: string
  web_url :: string
  web_description :: string

record news_result =
  news_title :: string
  news_url :: string
  news_description :: string
  news_age :: string
  news_hostname :: string  \<comment> \<open>\<open>meta_url.hostname\<close>\<close>

record faq_result =
  faq_title :: string
  faq_url :: string
  faq_question :: string
  faq_answer :: string

datatype item_type = Web | News | Faq | OtherType
  \<comment> \<open>\<open>item.type\<close>; the \<open>switch\<close> has no default, any other type does nothing\<close>

text \<open>\<open>BraveAPIResponse\<close>: every section is optional.\<close>

record brave_api_response =
  web :: "web_result list option"
  news :: "news_result list option"
  faq :: "faq_result list option"
  mixed :: "item_type list option"

record brave_search_result =
  title :: string
  url :: string
  description :: string

record reference =
  ref_title :: string
  ref_url :: string

record search_result =
  claim :: string
  references :: "reference list"

text \<open>What \<open>fetch\<close> of the search URL resolves to, for a query.\<close>

record http_response =
  ok :: bool
  statusText :: string
  json :: "exn + brave_api_response"  \<comment> \<open>\<open>response.json()\<close> may reject\<close>

type_synonym search_backend = "string \<Rightarrow> exn + http_response"

definition searchBrave :: "search_backend \<Rightarrow> string \<Rightarrow> exn + brave_api_response" where
  "searchBrave backend query =
     (case backend query of
        Inl err \<Rightarrow> Inl err
      | Inr response \<Rightarrow>
          if \<not> ok response then Inl (Error (''Brave search failed: '' @ statusText response))
          else json response)"

text \<open>\<open>text.replace(/pat/g, rep)\<close> for a literal pattern.\<close>

function replace_all :: "string \<Rightarrow> string \<Rightarrow> string \<Rightarrow> string" where
  "replace_all pat rep s =
     (if s = [] then []
      else if pat \<noteq> [] \<and> starts_with s pat
        then rep @ replace_all pat rep (drop (length pat) s)
      else hd s # replace_all pat rep (tl s))"
  by pat_completeness auto
termination
  by (relation "measure (\<lambda>(pat, rep, s). length s)") auto

declare replace_all.simps [simp del]

definition removeStrong :: "string \<Rightarrow> string" where
  "removeStrong text =
     replace_all ''&#x27;'' [CHR 0x27]
       (replace_all ''</strong>'' [] (replace_all ''<strong>'' [] text))"

text \<open>The variables of the loop of \<open>processSearchResults\<close>.\<close>

record loop_state =
  webIndex :: nat
  newsIndex :: nat
  faqIndex :: nat
  results :: "brave_search_result list"

text \<open>The \<open>switch\<close> on one item of the ordering.\<close>

definition process_item ::
  "web_result list \<Rightarrow> news_result list \<Rightarrow> faq_result list \<Rightarrow> item_type \<Rightarrow> loop_state
   \<Rightarrow> loop_state" where
  "process_item webResults newsResults faqResults item st =
     (case item of
        Web \<Rightarrow>
          if webIndex st < length webResults then
            (let result = webResults ! webIndex st
             in st\<lparr>webIndex := webIndex st + 1,
                   results := results st @
                     [\<lparr>title = web_title result, url = web_url result,
                       description = removeStrong (web_description result)\<rparr>]\<rparr>)
          else st
      | News \<Rightarrow>
          if newsIndex st < length newsResults then
            (let result = newsResults ! newsIndex st;
                 st' = st\<lparr>newsIndex := newsIndex st + 1\<rparr>
             in if length (news_description result) \<ge> 5 then
                  st'\<lparr>results := results st' @
                     [\<lparr>title = news_title result @ '' ('' @ news_age result @ '' - ''
                                 @ news_hostname result @ '')'',
                       url = news_url result,
                       description = removeStrong (news_description result)\<rparr>]\<rparr>
                else st')
          else st
      | Faq \<Rightarrow>
          if faqIndex st < length faqResults then
            (let result = faqResults ! faqIndex st
             in st\<lparr>faqIndex := faqIndex st + 1,
                   results := results st @
                     [\<lparr>title = faq_title result, url = faq_url result,
                       description = ''Q: '' @ faq_question result @ nl @ ''A: ''
                                     @ faq_answer result\<rparr>]\<rparr>)
          else st
      | OtherType \<Rightarrow> st)"

text \<open>The \<open>for\<close> loop over the ordering, with its \<open>break\<close> at five results.\<close>

fun process_ordering ::
  "web_result list \<Rightarrow> news_result list \<Rightarrow> faq_result list \<Rightarrow> item_type list \<Rightarrow> loop_state
   \<Rightarrow> loop_state" where
  "process_ordering webResults newsResults faqResults [] st = st"
| "process_ordering webResults newsResults faqResults (item # rest) st =
     (if length (results st) \<ge> 5 then st
      else process_ordering webResults newsResults faqResults rest
             (process_item webResults newsResults faqResults item st))"

definition or_empty :: "'a list option \<Rightarrow> 'a list" where
  "or_empty v = (case v of None \<Rightarrow> [] | Some xs \<Rightarrow> xs)"

definition processSearchResults ::
  "search_backend \<Rightarrow> string \<Rightarrow> exn + brave_search_result list" where
  "processSearchResults backend query =
     (case searchBrave backend query of
        Inl err \<Rightarrow> Inl err
      | Inr response \<Rightarrow>
          Inr (results
                (process_ordering (or_empty (web response)) (or_empty (news response))
                   (or_empty (faq response)) (or_empty (mixed response))
                   \<lparr>webIndex = 0, newsIndex = 0, faqIndex = 0, results = []\<rparr>)))"

text \<open>
  \<open>Promise.all\<close>: the results in order, or a rejection as soon as one promise rejects
  (here the first rejected one in list order).
\<close>

fun promise_all :: "(exn + 'a) list \<Rightarrow> exn + 'a list" where
  "promise_all [] = Inr []"
| "promise_all (p # ps) =
     (case p of
        Inl err \<Rightarrow> Inl err
      | Inr v \<Rightarrow> (case promise_all ps of Inl err \<Rightarrow> Inl err | Inr vs \<Rightarrow> Inr (v # vs)))"

text \<open>The first statement of \<open>factCheck\<close>: the claims extracted from the content.\<close>

definition extractClaims :: "string \<Rightarrow> string list" where
  "extractClaims content =
     take 3
       (filter (\<lambda>s. length s \<ge> 20 \<and> length (split_on (CHR '' '') s) \<ge> 5)
          (map trim (split_on (CHR ''.'') content)))"

definition resolveClaim :: "search_backend \<Rightarrow> string \<Rightarrow> exn + search_result" where
  "resolveClaim backend c =
     (case processSearchResults backend c of
        Inl err \<Rightarrow> Inl err
      | Inr searchResults \<Rightarrow>
          Inr \<lparr>claim = c,
               references =
                 map (\<lambda>result. \<lparr>ref_title = title result, ref_url = url result\<rparr>)
                   searchResults\<rparr>)"

definition factCheck :: "search_backend \<Rightarrow> string \<Rightarrow> exn + search_result list" where
  "factCheck backend content =
     (case promise_all (map (resolveClaim backend) (extractClaims content)) of
        Inl err \<Rightarrow> Inl err
      | Inr rs \<Rightarrow> Inr (filter (\<lambda>result. length (references result) > 0) rs))"

section \<open>The source-control service\<close>

record pr_details =
  owner :: string
  repo :: string
  pr_number :: nat

definition not_slash :: "char \<Rightarrow> bool" where
  "not_slash c = (c \<noteq> CHR ''/'')"

text \<open>
  The pattern \<open>repos\/([^/]+)\/([^/]+)\/pulls\/(\d+)\<close> matched at the start of \<open>s\<close>.
  A group \<open>[^/]+\<close> that is followed by a slash can only be the whole run of non-slash
  characters, and \<open>\d+\<close> at the end takes the whole run of digits, so the match at
  a position is unique.
\<close>

definition match_at :: "string \<Rightarrow> (string \<times> string \<times> string) option" where
  "match_at s =
     (if starts_with s ''repos/'' then
        (let r1 = drop 6 s;
             g1 = takeWhile not_slash r1;
             r2 = dropWhile not_slash r1
         in if g1 = [] then None
            else if r2 = [] then None
            else
              (let r3 = tl r2;
                   g2 = takeWhile not_slash r3;
                   r4 = dropWhile not_slash r3
               in if g2 = [] then None
                  else if starts_with r4 ''/pulls/'' then
                    (let g3 = takeWhile is_digit (drop 7 r4)
                     in if g3 = [] then None else Some (g1, g2, g3))
                  else None))
      else None)"

text \<open>\<open>prUrl.match(...)\<close>: the leftmost position where the pattern matches.\<close>

fun regex_match :: "string \<Rightarrow> (string \<times> string \<times> string) option" where
  "regex_match [] = match_at []"
| "regex_match (x # xs) =
     (case match_at (x # xs) of
        Some m \<Rightarrow> Some m
      | None \<Rightarrow> regex_match xs)"

text \<open>
  \<open>parseInt(ds, 10)\<close> on a string of decimal digits, with its exact value (above
  \<open>2^53\<close> the runtime rounds).
\<close>

definition parseInt :: "string \<Rightarrow> nat" where
  "parseInt ds = foldl (\<lambda>acc c. acc * 10 + digit_value c) 0 ds"

definition extractPRDetails :: "string \<Rightarrow> exn + pr_details" where
  "extractPRDetails prUrl =
     (case regex_match prUrl of
        None \<Rightarrow> Inl (Error ''Invalid PR URL format'')
      | Some (g1, g2, g3) \<Rightarrow> Inr \<lparr>owner = g1, repo = g2, pr_number = parseInt g3\<rparr>)"

record pull_file =
  filename :: string
  file_status :: string
  sha :: string

datatype content_data = FileData string | OtherData
  \<comment> \<open>\<open>FileData t\<close>: a \<open>content\<close> string is present, \<open>t\<close> is its decoded text\<close>

text \<open>
  The REST client of the source-control service, and the time the content fetch takes
  to settle, in milliseconds.
\<close>

record github_api =
  listFiles :: "string \<Rightarrow> string \<Rightarrow> nat \<Rightarrow> exn + pull_file list"
  getContent :: "string \<Rightarrow> string \<Rightarrow> string \<Rightarrow> string \<Rightarrow> exn + content_data"
  createIssueComment :: "string \<Rightarrow> string \<Rightarrow> int \<Rightarrow> string \<Rightarrow> exn + unit"
  content_latency_ms :: nat

definition getPRContent :: "github_api \<Rightarrow> string \<Rightarrow> string \<Rightarrow> nat \<Rightarrow> exn + string" where
  "getPRContent gh ow rp pullNumber =
     (case listFiles gh ow rp pullNumber of
        Inl err \<Rightarrow> Inl err
      | Inr files \<Rightarrow>
          (let markdownFiles =
                 filter (\<lambda>file. (file_status file = ''added'' \<or> file_status file = ''modified'')
                                 \<and> ends_with (filename file) ''.md'') files
           in if length markdownFiles = 0 then Inl (Error ''No markdown files found in the PR'')
              else
                (case promise_all
                        (map (\<lambda>file.
                                case getContent gh ow rp (filename file) (sha file) of
                                  Inl err \<Rightarrow> Inl err
                                | Inr data \<Rightarrow>
                                    Inr (case data of FileData t \<Rightarrow> t | OtherData \<Rightarrow> []))
                           markdownFiles) of
                   Inl err \<Rightarrow> Inl err
                 | Inr contents \<Rightarrow> Inr (join (nl @ nl) contents))))"

definition createComment ::
  "github_api \<Rightarrow> string \<Rightarrow> string \<Rightarrow> int \<Rightarrow> string \<Rightarrow> exn + unit" where
  "createComment gh ow rp issueNumber b = createIssueComment gh ow rp issueNumber b"

section \<open>The analysis service\<close>

text \<open>
  What the analysis API answers for an article (the prompt embeds the article content):
  the status, the error text, and the outcome of reading \<open>data.content[0].text\<close> from
  the JSON body.
\<close>

record analysis_response =
  a_ok :: bool
  a_statusText :: string
  a_errorText :: string
  a_text :: "exn + string"

type_synonym analysis_backend = "string \<Rightarrow> exn + analysis_response"

definition analyzeArticle :: "analysis_backend \<Rightarrow> string \<Rightarrow> exn + string" where
  "analyzeArticle backend content =
     (case backend content of
        Inl err \<Rightarrow> Inl err
      | Inr response \<Rightarrow>
          if \<not> a_ok response then
            Inl (Error (''Claude API error: '' @ a_statusText response @ '' - ''
                        @ a_errorText response))
          else a_text response)"

section \<open>The worker\<close>

definition json_headers :: "(string \<times> string) list" where
  "json_headers = [(''Content-Type'', ''application/json'')]"

definition internal_error_response :: response where
  "internal_error_response =
     \<lparr>status = 500, resp_body = Json [(''error'', ''Internal server error'')],
      resp_headers = json_headers\<rparr>"

definition event_processed_response :: response where
  "event_processed_response =
     \<lparr>status = 200, resp_body = Text ''Event processed'', resp_headers = []\<rparr>"

definition invalid_pr_url_response :: response where
  "invalid_pr_url_response =
     \<lparr>status = 400, resp_body = Text ''Invalid PR URL'', resp_headers = []\<rparr>"

definition completed_response :: response where
  "completed_response =
     \<lparr>status = 200, resp_body = Text ''Article check completed'',
      resp_headers = json_headers\<rparr>"

definition failed_response :: "string \<Rightarrow> response" where
  "failed_response errorMessage =
     \<lparr>status = 500, resp_body = Json [(''error'', errorMessage)],
      resp_headers = json_headers\<rparr>"

text \<open>The two emoji of the comment templates, as their UTF-8 bytes.\<close>

definition hourglass :: string where
  "hourglass = [CHR 0xE2, CHR 0x8F, CHR 0xB3]"

definition cross_mark :: string where
  "cross_mark = [CHR 0xE2, CHR 0x9D, CHR 0x8C]"

definition processing_comment :: string where
  "processing_comment = hourglass @ '' Processing article check request...''"

definition analysis_placeholder :: string where
  "analysis_placeholder = ''*Error: Could not generate analysis*''"

definition error_comment :: "string \<Rightarrow> string" where
  "error_comment errorMessage =
     cross_mark @ '' Error checking article:'' @ nl @ ''```'' @ nl @ errorMessage @ nl
     @ ''```'' @ nl @ ''Please try again later or contact support if the issue persists.''"

definition render_result :: "search_result \<Rightarrow> string" where
  "render_result result =
     nl @ ''**Claim:** '' @ claim result @ nl @ ''**References:**'' @ nl
     @ join nl (map (\<lambda>r. ''- ['' @ ref_title r @ ''](''  @ ref_url r @ '')'')
                  (references result))
     @ nl"

definition processing_time :: "services \<Rightarrow> comment \<Rightarrow> string" where
  "processing_time svc com =
     (case date_parse svc (created_at com) of
        None \<Rightarrow> ''NaN''
      | Some t \<Rightarrow> show_int (date_now_report svc - t))"

definition report_comment :: "services \<Rightarrow> comment \<Rightarrow> string \<Rightarrow> search_result list \<Rightarrow> string" where
  "report_comment svc com analysis factChecking =
     ''## Article Check Results'' @ nl @ nl
     @ ''### AI Analysis'' @ nl
     @ (if analysis = [] then analysis_placeholder else analysis) @ nl @ nl
     @ ''### Fact Checking Results'' @ nl
     @ (if length factChecking > 0 then join nl (map render_result factChecking)
        else ''*No claims to fact check*'') @ nl @ nl
     @ ''---'' @ nl
     @ ''*This check was performed automatically by the Article Checker bot.*'' @ nl
     @ ''*Processing time: '' @ processing_time svc com @ ''ms*''"

text \<open>
  \<open>Promise.race\<close> of the content fetch against the 30 second timer: a fetch that has not
  settled when the timer fires loses.
\<close>

definition fetch_content_with_timeout ::
  "github_api \<Rightarrow> pr_details \<Rightarrow> exn + string" where
  "fetch_content_with_timeout gh prDetails =
     (if content_latency_ms gh < 30000
      then getPRContent gh (owner prDetails) (repo prDetails) (pr_number prDetails)
      else Inl (Error ''Timeout''))"

text \<open>
  The body of the inner \<open>try\<close>. The acknowledgment is handed to \<open>ctx.waitUntil\<close>: the
  call is made, its outcome is not awaited.
\<close>

definition article_check ::
  "services \<Rightarrow> github_api \<Rightarrow> analysis_backend \<Rightarrow> search_backend \<Rightarrow> issue \<Rightarrow> comment
   \<Rightarrow> pr_details \<Rightarrow> (exn + response) \<times> event list" where
  "article_check svc gh ai brave iss com prDetails =
     (let tr = [CreateComment (owner prDetails) (repo prDetails) (issue_number iss)
                  processing_comment]
      in case fetch_content_with_timeout gh prDetails of
           Inl err \<Rightarrow> (Inl err, tr)
         | Inr content \<Rightarrow>
             (case analyzeArticle ai content of
                Inl err \<Rightarrow> (Inl err, tr)
              | Inr analysis \<Rightarrow>
                  (case factCheck brave content of
                     Inl err \<Rightarrow> (Inl err, tr)
                   | Inr factChecking \<Rightarrow>
                       (let report = report_comment svc com analysis factChecking;
                            tr' = tr @ [CreateComment (owner prDetails) (repo prDetails)
                                          (issue_number iss) report]
                        in case createComment gh (owner prDetails) (repo prDetails)
                                  (issue_number iss) report of
                             Inl err \<Rightarrow> (Inl err, tr')
                           | Inr _ \<Rightarrow> (Inr completed_response, tr')))))"

definition error_message :: "exn \<Rightarrow> string" where
  "error_message err = (case err of Error m \<Rightarrow> m | NonError \<Rightarrow> ''Unknown error'')"

text \<open>The inner \<open>catch\<close> block; the error comment is awaited, so its throw leaves the block.\<close>

definition article_check_failed ::
  "github_api \<Rightarrow> issue \<Rightarrow> pr_details \<Rightarrow> exn \<Rightarrow> (exn + response) \<times> event list" where
  "article_check_failed gh iss prDetails err =
     (let errorMessage = error_message err;
          tr = [CreateComment (owner prDetails) (repo prDetails) (issue_number iss)
                  (error_comment errorMessage)]
      in case createComment gh (owner prDetails) (repo prDetails) (issue_number iss)
                (error_comment errorMessage) of
           Inl err' \<Rightarrow> (Inl err', tr)
         | Inr _ \<Rightarrow> (Inr (failed_response errorMessage), tr))"

text \<open>The inner \<open>try\<close>/\<open>catch\<close> statement.\<close>

definition run_article_check ::
  "services \<Rightarrow> github_api \<Rightarrow> analysis_backend \<Rightarrow> search_backend \<Rightarrow> issue \<Rightarrow> comment
   \<Rightarrow> pr_details \<Rightarrow> (exn + response) \<times> event list" where
  "run_article_check svc gh ai brave iss com prDetails =
     (case article_check svc gh ai brave iss com prDetails of
        (Inr resp, tr) \<Rightarrow> (Inr resp, tr)
      | (Inl err, tr) \<Rightarrow>
          (case article_check_failed gh iss prDetails err of
             (r, tr') \<Rightarrow> (r, tr @ tr')))"

text \<open>The outer \<open>try\<close> body after validation: the event dispatch.\<close>

definition handle_event ::
  "services \<Rightarrow> github_api \<Rightarrow> analysis_backend \<Rightarrow> search_backend \<Rightarrow> request
   \<Rightarrow> (exn + response) \<times> event list" where
  "handle_event svc gh ai brave req =
     (case json_parse svc (req_body req) of
        ParseThrows err \<Rightarrow> (Inl err, [])
      | NotAnObject \<Rightarrow> (Inl (Error ''TypeError''), [])
      | Object payload \<Rightarrow>
          (case issue_field payload of
             None \<Rightarrow> (Inr event_processed_response, [])
           | Some iss \<Rightarrow>
               (case comment_field payload of
                  None \<Rightarrow> (Inr event_processed_response, [])
                | Some com \<Rightarrow>
                    if action payload = Some ''created'' then
                      (case pull_request iss of
                         None \<Rightarrow> (Inr event_processed_response, [])
                       | Some pr \<Rightarrow>
                           if comment_body com = [] then (Inr event_processed_response, [])
                           else if str_includes (comment_body com) ''/articlecheck'' then
                             (case pr_url pr of
                                None \<Rightarrow> (Inr invalid_pr_url_response, [])
                              | Some prUrl \<Rightarrow>
                                  if prUrl = [] then (Inr invalid_pr_url_response, [])
                                  else
                                    (case extractPRDetails prUrl of
                                       Inl err \<Rightarrow> (Inl err, [])
                                     | Inr prDetails \<Rightarrow>
                                         run_article_check svc gh ai brave iss com prDetails))
                           else (Inr event_processed_response, []))
                    else (Inr event_processed_response, []))))"

text \<open>The handler \<open>fetch\<close> of the worker: the response, and the calls made.\<close>

definition fetch ::
  "services \<Rightarrow> github_api \<Rightarrow> analysis_backend \<Rightarrow> search_backend \<Rightarrow> env \<Rightarrow> request
   \<Rightarrow> response \<times> event list" where
  "fetch svc gh ai brave e req =
     (case validateRequest svc e req of
        (Inl err, tr) \<Rightarrow> (internal_error_response, tr)
      | (Inr (Some validationError), tr) \<Rightarrow> (validationError, tr)
      | (Inr None, tr) \<Rightarrow>
          (case handle_event svc gh ai brave req of
             (Inl err, tr') \<Rightarrow> (internal_error_response, tr @ tr')
           | (Inr resp, tr') \<Rightarrow> (resp, tr @ tr')))"

section \<open>Reading the call log\<close>

fun comment_bodies :: "event list \<Rightarrow> string list" where
  "comment_bodies [] = []"
| "comment_bodies (CreateComment ow rp n b # evs) = b # comment_bodies evs"
| "comment_bodies (ev # evs) = comment_bodies evs"

fun verify_calls :: "event list \<Rightarrow> (string \<times> string \<times> string) list" where
  "verify_calls [] = []"
| "verify_calls (Verify secret payload signature # evs) =
     (secret, payload, signature) # verify_calls evs"
| "verify_calls (ev # evs) = verify_calls evs"

section \<open>The extraction rule in the words of the specification\<close>

text \<open>
  The specification keeps a sentence when its trimmed length is at least 20 and it
  contains at least 5 whitespace-delimited tokens. \<open>spec_extractClaims\<close> follows these
  words: a token is a maximal run of characters that are not white space.
\<close>

fun split_where :: "(char \<Rightarrow> bool) \<Rightarrow> string \<Rightarrow> string list" where
  "split_where P [] = [[]]"
| "split_where P (x # xs) =
     (if P x then [] # split_where P xs
      else (case split_where P xs of
              [] \<Rightarrow> [[x]]
            | piece # pieces \<Rightarrow> (x # piece) # pieces))"

definition ws_tokens :: "string \<Rightarrow> string list" where
  "ws_tokens s = filter (\<lambda>t. t \<noteq> []) (split_where is_js_space s)"

definition spec_extractClaims :: "string \<Rightarrow> string list" where
  "spec_extractClaims content =
     take 3
       (filter (\<lambda>s. length s \<ge> 20 \<and> length (ws_tokens s) \<ge> 5)
          (map trim (split_on (CHR ''.'') content)))"

section \<open>Example inputs\<close>

definition example_env :: env where
  "example_env =
     \<lparr>GITHUB_TOKEN = ''token'', ANTHROPIC_API_KEY = ''analysis-key'',
      BRAVE_SEARCH_API_KEY = ''search-key'', GITHUB_WEBHOOK_SECRET = ''secret''\<rparr>"

definition example_text :: string where
  "example_text =
     ''Short. This is a longer and more substantial claim that should be included.''"

definition example_payload :: "string \<Rightarrow> webhook_payload" where
  "example_payload u =
     \<lparr>action = Some ''created'',
      issue_field = Some \<lparr>issue_number = 123, pull_request = Some \<lparr>pr_url = Some u\<rparr>\<rparr>,
      comment_field = Some \<lparr>comment_body = ''/articlecheck'',
                             created_at = ''2024-01-09T23:59:59Z''\<rparr>\<rparr>"

definition example_request :: "string \<Rightarrow> string \<Rightarrow> request" where
  "example_request signature b =
     \<lparr>req_headers = [(''x-hub-signature-256'', signature), (''cf-connecting-ip'', ''1.2.3.4'')],
      req_body = b\<rparr>"

text \<open>
  A store answering \<open>stored\<close>, a verifier accepting the signature \<open>sha256=valid\<close>, and a
  parser that reads the body \<open>good\<close> as a trigger event on a well-formed pull request URL
  and the body \<open>odd\<close> as one on a URL of another shape.
\<close>

definition example_services :: "(exn + json) \<Rightarrow> (exn + unit) \<Rightarrow> services" where
  "example_services stored written =
     \<lparr>date_now = 1704844800000,
      kv_get = (\<lambda>key. stored),
      kv_put = (\<lambda>key v ttl. written),
      verify = (\<lambda>secret payload signature. Inr (signature = ''sha256=valid'')),
      json_parse = (\<lambda>b. if b = ''good''
                            then Object (example_payload
                                   ''https://api.github.com/repos/owner/repo/pulls/123'')
                          else if b = ''odd''
                            then Object (example_payload ''https://invalid-url'')
                          else ParseThrows (Error ''Unexpected token'')),
      date_parse = (\<lambda>s. Some 1704844799000),
      date_now_report = 1704844802500\<rparr>"

definition example_github :: "nat \<Rightarrow> (exn + unit) \<Rightarrow> github_api" where
  "example_github latency posted =
     \<lparr>listFiles = (\<lambda>ow rp n.
         Inr [\<lparr>filename = ''article.md'', file_status = ''added'', sha = ''abc''\<rparr>]),
      getContent = (\<lambda>ow rp path r. Inr (FileData example_text)),
      createIssueComment = (\<lambda>ow rp n b. posted),
      content_latency_ms = latency\<rparr>"

definition example_analysis :: "bool \<Rightarrow> string \<Rightarrow> analysis_backend" where
  "example_analysis success t =
     (\<lambda>content. Inr \<lparr>a_ok = success, a_statusText = ''Internal Server Error'',
                      a_errorText = ''API Error'', a_text = Inr t\<rparr>)"

definition example_search :: "bool \<Rightarrow> web_result list \<Rightarrow> search_backend" where
  "example_search success ws =
     (\<lambda>query. Inr \<lparr>ok = success, statusText = ''Internal Server Error'',
                    json = Inr \<lparr>web = Some ws, news = None, faq = None,
                               mixed = Some (replicate (length ws) Web)\<rparr>\<rparr>)"

definition example_web_result :: web_result where
  "example_web_result =
     \<lparr>web_title = ''Test Result'', web_url = ''https://test.com'',
      web_description = ''A <strong>matching</strong> result''\<rparr>"

definition example_claim :: string where
  "example_claim = ''This is a longer and more substantial claim that should be included''"

definition example_reference :: reference where
  "example_reference = \<lparr>ref_title = ''Test Result'', ref_url = ''https://test.com''\<rparr>"

definition example_hit :: brave_search_result where
  "example_hit =
     \<lparr>title = ''Test Result'', url = ''https://test.com'', description = ''A matching result''\<rparr>"

definition example_multiline :: string where
  "example_multiline = ''alpha beta gamma'' @ nl @ ''delta epsilon''"

definition example_first_claim :: string where
  "example_first_claim = ''The first claim has no matching references at all''"

definition example_text2 :: string where
  "example_text2 = example_first_claim @ ''. '' @ example_text"

definition example_search_for ::
  "string \<Rightarrow> search_backend \<Rightarrow> search_backend \<Rightarrow> search_backend" where
  "example_search_for q b1 b2 = (\<lambda>query. if query = q then b1 query else b2 query)"

text \<open>
  The conditions under which the handler starts an article check: an issue comment
  that was created, on a pull request, with a body containing the trigger command.
\<close>

definition is_trigger ::
  "webhook_payload \<Rightarrow> issue \<Rightarrow> comment \<Rightarrow> pull_request_ref \<Rightarrow> bool" where
  "is_trigger payload iss com pr =
     (issue_field payload = Some iss \<and> comment_field payload = Some com
      \<and> action payload = Some ''created'' \<and> pull_request iss = Some pr
      \<and> comment_body com \<noteq> [] \<and> str_includes (comment_body com) ''/articlecheck'')"

definition example_pr :: "string \<Rightarrow> pull_request_ref" where
  "example_pr u = \<lparr>pr_url = Some u\<rparr>"

definition example_issue :: "string \<Rightarrow> issue" where
  "example_issue u = \<lparr>issue_number = 123, pull_request = Some (example_pr u)\<rparr>"

definition example_comment :: comment where
  "example_comment =
     \<lparr>comment_body = ''/articlecheck'', created_at = ''2024-01-09T23:59:59Z''\<rparr>"

definition example_url :: string where
  "example_url = ''https://api.github.com/repos/owner/repo/pulls/123''"

definition example_details :: pr_details where
  "example_details = \<lparr>owner = ''owner'', repo = ''repo'', pr_number = 123\<rparr>"

section \<open>Lemmas about the helpers\<close>

lemma split_on_nonempty: "split_on c s \<noteq> []"
  by (induction s) (auto split: list.splits)

lemma length_split_on: "length (split_on c s) = count_list s c + 1"
  by (induction s) (auto split: list.splits simp: split_on_nonempty)

lemma process_item_results_length:
  "length (results (process_item w n f item st)) \<le> Suc (length (results st))"
  by (cases item) (auto simp: process_item_def Let_def)

lemma process_ordering_bound:
  "length (results st) \<le> 5 \<Longrightarrow> length (results (process_ordering w n f items st)) \<le> 5"
proof (induction items arbitrary: st)
  case Nil
  then show ?case by simp
next
  case (Cons item rest)
  show ?case
  proof (cases "length (results st) \<ge> 5")
    case True
    with Cons.prems show ?thesis by simp
  next
    case False
    then have "length (results (process_item w n f item st)) \<le> 5"
      using process_item_results_length [of w n f item st] by linarith
    from Cons.IH [OF this] False show ?thesis by simp
  qed
qed

lemma processSearchResults_bound:
  "processSearchResults backend query = Inr rs \<Longrightarrow> length rs \<le> 5"
  unfolding processSearchResults_def
  by (auto split: sum.splits intro!: process_ordering_bound)

lemma promise_all_Inr: "promise_all ps = Inr vs \<Longrightarrow> ps = map Inr vs"
  by (induction ps arbitrary: vs) (auto split: sum.splits)

lemma promise_all_Inl: "p \<in> set ps \<Longrightarrow> p = Inl err \<Longrightarrow> \<exists>err'. promise_all ps = Inl err'"
  by (induction ps) (auto split: sum.splits)

lemma promise_all_map_length:
  "promise_all (map f xs) = Inr vs \<Longrightarrow> length vs = length xs"
  by (drule promise_all_Inr) (metis length_map)

lemma promise_all_map_member:
  assumes "promise_all (map f xs) = Inr vs" and "v \<in> set vs"
  shows "\<exists>x \<in> set xs. f x = Inr v"
proof -
  from assms(1) have eq: "map f xs = map Inr vs" by (rule promise_all_Inr)
  from assms(2) have "Inr v \<in> set (map Inr vs)" by simp
  with eq have "Inr v \<in> set (map f xs)" by simp
  then show ?thesis by auto
qed

lemma length_extractClaims: "length (extractClaims content) \<le> 3"
  by (simp add: extractClaims_def)

lemma resolveClaim_references:
  "resolveClaim backend c = Inr r \<Longrightarrow> length (references r) \<le> 5 \<and> claim r = c"
  unfolding resolveClaim_def
  by (auto split: sum.splits dest: processSearchResults_bound)

lemma factCheck_member:
  assumes "factCheck backend content = Inr out" and "r \<in> set out"
  shows "\<exists>c \<in> set (extractClaims content). resolveClaim backend c = Inr r"
    and "references r \<noteq> []"
proof -
  from assms(1) obtain rs where
    rs: "promise_all (map (resolveClaim backend) (extractClaims content)) = Inr rs"
    and out: "out = filter (\<lambda>result. length (references result) > 0) rs"
    unfolding factCheck_def by (auto split: sum.splits)
  from out assms(2) have "r \<in> set rs" and "references r \<noteq> []" by auto
  then show "references r \<noteq> []" by simp
  from promise_all_map_member [OF rs \<open>r \<in> set rs\<close>]
  show "\<exists>c \<in> set (extractClaims content). resolveClaim backend c = Inr r" .
qed

lemma factCheck_length:
  assumes "factCheck backend content = Inr out"
  shows "length out \<le> 3"
proof -
  from assms obtain rs where
    rs: "promise_all (map (resolveClaim backend) (extractClaims content)) = Inr rs"
    and out: "out = filter (\<lambda>result. length (references result) > 0) rs"
    unfolding factCheck_def by (auto split: sum.splits)
  have "length out \<le> length rs" unfolding out by (rule length_filter_le)
  also have "length rs = length (extractClaims content)"
    using rs by (rule promise_all_map_length)
  also have "\<dots> \<le> 3" by (rule length_extractClaims)
  finally show ?thesis .
qed

section \<open>The fact-check engine: properties\<close>

text \<open>
  Claim C9. Output size bounds: whatever the input text, \<open>factCheck\<close> extracts at most
  3 claims, and whatever the search backend answers for a claim, at most 5 results come
  out of \<open>processSearchResults\<close>, so every entry of the list \<open>factCheck\<close> returns (at most
  3 entries) carries at most 5 references.
\<close>

theorem output_size_bounds:
  "length (extractClaims content) \<le> 3
   \<and> (\<forall>rs. processSearchResults backend query = Inr rs \<longrightarrow> length rs \<le> 5)
   \<and> (\<forall>out. factCheck backend content = Inr out \<longrightarrow>
          length out \<le> 3 \<and> (\<forall>r \<in> set out. length (references r) \<le> 5))"
proof (intro conjI allI impI ballI)
  show "length (extractClaims content) \<le> 3" by (rule length_extractClaims)
next
  fix rs assume "processSearchResults backend query = Inr rs"
  then show "length rs \<le> 5" by (rule processSearchResults_bound)
next
  fix out assume "factCheck backend content = Inr out"
  then show "length out \<le> 3" by (rule factCheck_length)
next
  fix out r assume fc: "factCheck backend content = Inr out" and r: "r \<in> set out"
  from factCheck_member(1) [OF fc r] obtain c where "resolveClaim backend c = Inr r" by blast
  then show "length (references r) \<le> 5" by (simp add: resolveClaim_references)
qed

text \<open>
  On the example text, with a backend that offers ten web results for every query, one
  claim comes back with five references.
\<close>

theorem output_size_bounds_witness:
  "processSearchResults (example_search True (replicate 10 example_web_result)) example_claim
     = Inr (replicate 5 example_hit)
   \<and> length (replicate 5 example_hit) \<le> 5
   \<and> factCheck (example_search True (replicate 10 example_web_result)) example_text
     = Inr [\<lparr>claim = example_claim, references = replicate 5 example_reference\<rparr>]
   \<and> length [\<lparr>claim = example_claim, references = replicate 5 example_reference\<rparr>] \<le> 3
   \<and> length (references \<lparr>claim = example_claim, references = replicate 5 example_reference\<rparr>)
       \<le> 5
   \<and> length (extractClaims example_text) \<le> 3"
proof -
  let ?B = "example_search True (replicate 10 example_web_result)"
  let ?out = "[\<lparr>claim = example_claim, references = replicate 5 example_reference\<rparr>]"
  have ps: "processSearchResults ?B example_claim = Inr (replicate 5 example_hit)"
    by code_simp
  have fc: "factCheck ?B example_text = Inr ?out"
    by code_simp
  note t = output_size_bounds [of example_text ?B example_claim]
  from t have a: "length (extractClaims example_text) \<le> 3" by blast
  from t ps have b: "length (replicate 5 example_hit) \<le> 5" by blast
  from t fc have c: "length ?out \<le> 3 \<and> (\<forall>r \<in> set ?out. length (references r) \<le> 5)"
    by blast
  then have d: "length (references (hd ?out)) \<le> 5" by simp
  from a b c d ps fc show ?thesis by simp
qed

text \<open>
  Claim C6, as stated, would make the extraction agree with the rule ``trimmed length
  at least 20 and at least 5 whitespace-delimited tokens''. It does not: a sentence of
  five words in which a line break separates two of them has five tokens, yet
  \<open>s.split(" ")\<close> gives only four pieces, and the code drops it.
\<close>

theorem extraction_rule_counterexample:
  "spec_extractClaims example_multiline = [example_multiline]
   \<and> extractClaims example_multiline = []"
  by code_simp

text \<open>
  Claim C6, amended. The claims are obtained by splitting the text on periods, trimming
  each piece, keeping a piece if and only if its trimmed length is at least 20 and it
  contains at least 4 space characters (splitting it at every single space gives at least
  5 pieces; other white space does not separate, and consecutive spaces count), and
  taking the first 3 kept pieces in their order. The example text yields exactly the one
  claim of the specification, trimmed and without its period.
\<close>

theorem extraction_rule:
  "extractClaims content =
     take 3 (filter (\<lambda>s. length s \<ge> 20 \<and> count_list s (CHR '' '') \<ge> 4)
               (map trim (split_on (CHR ''.'') content)))
   \<and> extractClaims example_text = [example_claim]"
proof
  show "extractClaims content =
     take 3 (filter (\<lambda>s. length s \<ge> 20 \<and> count_list s (CHR '' '') \<ge> 4)
               (map trim (split_on (CHR ''.'') content)))"
    unfolding extractClaims_def length_split_on
    by (rule arg_cong [where f = "take 3"], rule filter_cong) auto
  show "extractClaims example_text = [example_claim]"
    by code_simp
qed

text \<open>
  Claim C7. No empty reference sets: whatever the text and the search backend, every
  entry of the list \<open>factCheck\<close> returns has a non-empty list of references, and a claim
  whose search yields no surviving result is not in the list.
\<close>

theorem no_empty_reference_sets:
  assumes "factCheck backend content = Inr out"
  shows "(\<forall>r \<in> set out. references r \<noteq> [])
         \<and> (\<forall>c. processSearchResults backend c = Inr [] \<longrightarrow> c \<notin> claim ` set out)"
proof (intro conjI ballI allI impI)
  fix r assume "r \<in> set out"
  with assms show "references r \<noteq> []" by (rule factCheck_member(2))
next
  fix c assume none: "processSearchResults backend c = Inr []"
  show "c \<notin> claim ` set out"
  proof
    assume "c \<in> claim ` set out"
    then obtain r where r: "r \<in> set out" and c: "claim r = c" by auto
    from factCheck_member(1) [OF assms r] obtain c' where
      res: "resolveClaim backend c' = Inr r" by blast
    then have "claim r = c'" by (simp add: resolveClaim_references)
    with c res have "resolveClaim backend c = Inr r" by simp
    with none have "references r = []" by (auto simp: resolveClaim_def)
    with factCheck_member(2) [OF assms r] show False by simp
  qed
qed

text \<open>
  Two claims, the first without any search result: only the second is returned.
\<close>

theorem no_empty_reference_sets_witness:
  "factCheck (example_search_for example_claim (example_search True [example_web_result])
               (example_search True [])) example_text2
     = Inr [\<lparr>claim = example_claim, references = [example_reference]\<rparr>]
   \<and> references \<lparr>claim = example_claim, references = [example_reference]\<rparr> \<noteq> []
   \<and> processSearchResults (example_search_for example_claim
         (example_search True [example_web_result]) (example_search True []))
         example_first_claim = Inr []
   \<and> example_first_claim \<in> set (extractClaims example_text2)
   \<and> example_first_claim
       \<notin> claim ` set [\<lparr>claim = example_claim, references = [example_reference]\<rparr>]"
proof -
  let ?B = "example_search_for example_claim (example_search True [example_web_result])
              (example_search True [])"
  let ?r = "\<lparr>claim = example_claim, references = [example_reference]\<rparr>"
  have fc: "factCheck ?B example_text2 = Inr [?r]" by code_simp
  have none: "processSearchResults ?B example_first_claim = Inr []" by code_simp
  have mem: "example_first_claim \<in> set (extractClaims example_text2)" by code_simp
  note t = no_empty_reference_sets [OF fc]
  from t have a: "references ?r \<noteq> []" by simp
  from t none have b: "example_first_claim \<notin> claim ` set [?r]" by blast
  from fc none mem a b show ?thesis by simp
qed

text \<open>
  Claim C8. Batch failure propagation: when the search backend answers one of the
  extracted claims with a non-success status, the whole \<open>factCheck\<close> call rejects; no
  list with the other claims' results is returned.
\<close>

theorem batch_failure_propagation:
  assumes "c \<in> set (extractClaims content)"
    and "backend c = Inr response" and "\<not> ok response"
  shows "(\<exists>err. factCheck backend content = Inl err)
         \<and> (\<forall>out. factCheck backend content \<noteq> Inr out)"
proof -
  from assms(2,3) have "searchBrave backend c
      = Inl (Error (''Brave search failed: '' @ statusText response))"
    by (simp add: searchBrave_def)
  then have "resolveClaim backend c
      = Inl (Error (''Brave search failed: '' @ statusText response))"
    by (simp add: resolveClaim_def processSearchResults_def)
  moreover from assms(1) have
    "resolveClaim backend c \<in> set (map (resolveClaim backend) (extractClaims content))"
    by simp
  ultimately obtain err' where
    "promise_all (map (resolveClaim backend) (extractClaims content)) = Inl err'"
    using promise_all_Inl by blast
  then have "factCheck backend content = Inl err'" by (simp add: factCheck_def)
  then show ?thesis by simp
qed

text \<open>
  Two claims, the first resolved with a reference, the second answered with status 500:
  the call rejects.
\<close>

theorem batch_failure_propagation_witness:
  "example_claim \<in> set (extractClaims example_text2)
   \<and> example_search_for example_claim (example_search False [])
        (example_search True [example_web_result]) example_claim
      = Inr \<lparr>ok = False, statusText = ''Internal Server Error'',
              json = Inr \<lparr>web = Some [], news = None, faq = None, mixed = Some []\<rparr>\<rparr>
   \<and> resolveClaim (example_search_for example_claim (example_search False [])
        (example_search True [example_web_result])) example_first_claim
      = Inr \<lparr>claim = example_first_claim, references = [example_reference]\<rparr>
   \<and> (\<exists>err. factCheck (example_search_for example_claim (example_search False [])
        (example_search True [example_web_result])) example_text2 = Inl err)"
proof -
  let ?B = "example_search_for example_claim (example_search False [])
              (example_search True [example_web_result])"
  let ?R = "\<lparr>ok = False, statusText = ''Internal Server Error'',
              json = Inr \<lparr>web = Some [], news = None, faq = None, mixed = Some []\<rparr>\<rparr>"
  have mem: "example_claim \<in> set (extractClaims example_text2)" by code_simp
  have resp: "?B example_claim = Inr ?R"
    by (simp add: example_search_for_def example_search_def)
  have nok: "\<not> ok ?R" by simp
  have other: "resolveClaim ?B example_first_claim
      = Inr \<lparr>claim = example_first_claim, references = [example_reference]\<rparr>"
    by code_simp
  from batch_failure_propagation [of example_claim example_text2 ?B ?R, OF mem resp nok]
  have "\<exists>err. factCheck ?B example_text2 = Inl err" by blast
  with mem resp other show ?thesis by simp
qed

section \<open>The rate limiter and the validator: properties\<close>

lemma is_after_int: "is_after (JNum (of_int t)) w = Inr (t > w)"
  by (simp add: is_after_def number_gt_def)

lemma filter_after_timestamps:
  "filter_after w (map (\<lambda>t. JNum (of_int t)) ts)
     = Inr (map (\<lambda>t. JNum (of_int t)) (filter (\<lambda>t. t > w) ts))"
  by (induction ts) (simp_all add: is_after_int)

lemma filter_after_replicate:
  "is_after v w = Inr True \<Longrightarrow> filter_after w (replicate n v) = Inr (replicate n v)"
  by (induction n) simp_all

lemma checkRateLimit_unfold:
  "checkRateLimit svc ip =
     (let now = date_now svc div 1000;
          key = ''ratelimit:'' @ ip;
          requests = (case kv_get svc key of
                        Inl _ \<Rightarrow> []
                      | Inr storedRequests \<Rightarrow>
                          (case storedRequests of JArr es \<Rightarrow> es | _ \<Rightarrow> []))
      in case filter_after (now - WINDOW_SIZE) requests of
           Inl err \<Rightarrow> (False, [KvGet key])
         | Inr kept \<Rightarrow>
             (int (length (kept @ [JNum (of_int now)])) > MAX_REQUESTS,
              [KvGet key, KvPut key (kept @ [JNum (of_int now)]) WINDOW_SIZE]))"
  by (simp add: checkRateLimit_def rateLimitBody_def Let_def split: sum.splits)

lemma checkRateLimit_array:
  "kv_get svc (''ratelimit:'' @ ip) = Inr (timestamps ts) \<Longrightarrow>
   fst (checkRateLimit svc ip)
     \<longleftrightarrow> int (length (filter (\<lambda>t. t > date_now svc div 1000 - WINDOW_SIZE) ts)) + 1
          > MAX_REQUESTS"
  by (auto simp add: checkRateLimit_unfold Let_def timestamps_def filter_after_timestamps)

lemma checkRateLimit_kept:
  "kv_get svc (''ratelimit:'' @ ip) = Inr (JArr es) \<Longrightarrow>
   filter_after (date_now svc div 1000 - WINDOW_SIZE) es = Inr kept \<Longrightarrow>
   checkRateLimit svc ip =
     (int (length kept) + 1 > MAX_REQUESTS,
      [KvGet (''ratelimit:'' @ ip),
       KvPut (''ratelimit:'' @ ip) (kept @ [JNum (of_int (date_now svc div 1000))])
         WINDOW_SIZE])"
  by (auto simp add: checkRateLimit_unfold Let_def)

lemma checkRateLimit_thrown:
  "kv_get svc (''ratelimit:'' @ ip) = Inr (JArr es) \<Longrightarrow>
   filter_after (date_now svc div 1000 - WINDOW_SIZE) es = Inl err \<Longrightarrow>
   checkRateLimit svc ip = (False, [KvGet (''ratelimit:'' @ ip)])"
  by (simp add: checkRateLimit_unfold Let_def)

lemma checkRateLimit_no_array:
  assumes "kv_get svc (''ratelimit:'' @ ip) = Inl err
     \<or> (\<exists>v. kv_get svc (''ratelimit:'' @ ip) = Inr v \<and> \<not> is_array v)"
  shows "checkRateLimit svc ip =
     (False, [KvGet (''ratelimit:'' @ ip),
              KvPut (''ratelimit:'' @ ip) [JNum (of_int (date_now svc div 1000))] WINDOW_SIZE])"
proof -
  have "(case kv_get svc (''ratelimit:'' @ ip) of
           Inl _ \<Rightarrow> []
         | Inr storedRequests \<Rightarrow>
             (case storedRequests of JArr es \<Rightarrow> es | _ \<Rightarrow> [])) = []"
  proof (cases "kv_get svc (''ratelimit:'' @ ip)")
    case (Inl thrown)
    then show ?thesis by simp
  next
    case (Inr v)
    with assms have "\<not> is_array v" by auto
    then show ?thesis using Inr by (cases v) (simp_all add: is_array_def)
  qed
  then show ?thesis
    by (simp add: checkRateLimit_unfold Let_def MAX_REQUESTS_def)
qed

lemma checkRateLimit_put_irrelevant:
  "checkRateLimit (svc\<lparr>kv_put := put'\<rparr>) ip = checkRateLimit svc ip"
  by (simp add: checkRateLimit_unfold)

lemma verify_calls_append: "verify_calls (xs @ ys) = verify_calls xs @ verify_calls ys"
  by (induction xs rule: verify_calls.induct) simp_all

lemma verify_calls_checkRateLimit: "verify_calls (snd (checkRateLimit svc ip)) = []"
  by (simp add: checkRateLimit_unfold Let_def split: sum.splits)

lemma comment_bodies_checkRateLimit: "comment_bodies (snd (checkRateLimit svc ip)) = []"
  by (simp add: checkRateLimit_unfold Let_def split: sum.splits)

lemma digit_values:
  "digit_value (CHR ''0'') = 0" "digit_value (CHR ''1'') = 1" "digit_value (CHR ''2'') = 2"
  "digit_value (CHR ''3'') = 3" "digit_value (CHR ''4'') = 4" "digit_value (CHR ''5'') = 5"
  "digit_value (CHR ''6'') = 6" "digit_value (CHR ''7'') = 7" "digit_value (CHR ''8'') = 8"
  "digit_value (CHR ''9'') = 9"
  by (simp_all add: digit_value_def)

lemma example_numeric_string: "str_to_number ''1704844700'' = Num 1704844700"
  by (simp add: str_to_number_def trim_def is_js_space_def Let_def unsigned_decimal_def
        exponent_part_def scale10_def decimal_value_def digit_values is_digit_def)

lemma example_numeric_string_after:
  "is_after (JStr ''1704844700'') 1704841200 = Inr True"
  by (simp add: is_after_def number_gt_def example_numeric_string)

lemma example_unconvertible:
  "is_after (JObj [(''toString'', JNum 1)]) w
     = Inl (Error ''Cannot convert object to primitive value'')"
  by (simp add: is_after_def)

lemma show_int_WINDOW_SIZE: "show_int WINDOW_SIZE = ''3600''"
  by code_simp

lemma rate_limit_response_simps:
  "status rate_limit_response = 429"
  "map_of (resp_headers rate_limit_response) ''Retry-After'' = Some ''3600''"
  by (simp_all add: rate_limit_response_def show_int_WINDOW_SIZE)

lemma validate_missing_env:
  "missingEnvVars e \<noteq> [] \<Longrightarrow> validateRequest svc e req = (Inr (Some missing_env_response), [])"
  by (simp add: validateRequest_def)

lemma validate_over_limit:
  "missingEnvVars e = [] \<Longrightarrow> fst (checkRateLimit svc (clientIP req)) \<Longrightarrow>
   validateRequest svc e req
     = (Inr (Some rate_limit_response), snd (checkRateLimit svc (clientIP req)))"
  by (cases "checkRateLimit svc (clientIP req)") (simp add: validateRequest_def)

lemma validate_no_signature:
  "missingEnvVars e = [] \<Longrightarrow> \<not> fst (checkRateLimit svc (clientIP req)) \<Longrightarrow>
   header req ''x-hub-signature-256'' = None \<or> header req ''x-hub-signature-256'' = Some [] \<Longrightarrow>
   validateRequest svc e req
     = (Inr (Some no_signature_response), snd (checkRateLimit svc (clientIP req)))"
  by (cases "checkRateLimit svc (clientIP req)") (auto simp add: validateRequest_def)

lemma validate_verify:
  "missingEnvVars e = [] \<Longrightarrow> \<not> fst (checkRateLimit svc (clientIP req)) \<Longrightarrow>
   header req ''x-hub-signature-256'' = Some signature \<Longrightarrow> signature \<noteq> [] \<Longrightarrow>
   validateRequest svc e req
     = (case verify svc (GITHUB_WEBHOOK_SECRET e) (req_body req) signature of
          Inl err \<Rightarrow> Inl err
        | Inr isValid \<Rightarrow> if isValid then Inr None else Inr (Some invalid_signature_response),
        snd (checkRateLimit svc (clientIP req))
          @ [Verify (GITHUB_WEBHOOK_SECRET e) (req_body req) signature])"
  by (cases "checkRateLimit svc (clientIP req)")
     (auto simp add: validateRequest_def Let_def split: sum.splits)

lemma validate_proceed_iff:
  "fst (validateRequest svc e req) = Inr None \<longleftrightarrow>
     missingEnvVars e = [] \<and> \<not> fst (checkRateLimit svc (clientIP req))
     \<and> (\<exists>signature. header req ''x-hub-signature-256'' = Some signature \<and> signature \<noteq> []
          \<and> verify svc (GITHUB_WEBHOOK_SECRET e) (req_body req) signature = Inr True)"
  by (cases "checkRateLimit svc (clientIP req)")
     (auto simp add: validateRequest_def Let_def split: sum.splits option.splits)

lemma missingEnvVars_iff:
  "missingEnvVars e \<noteq> [] \<longleftrightarrow>
     GITHUB_TOKEN e = [] \<or> ANTHROPIC_API_KEY e = [] \<or> BRAVE_SEARCH_API_KEY e = []
     \<or> GITHUB_WEBHOOK_SECRET e = []"
  by (auto simp add: missingEnvVars_def requiredEnvVars_def env_lookup_def)

lemma validate_throws:
  "fst (validateRequest svc e req) = Inl err \<Longrightarrow>
   \<exists>signature. header req ''x-hub-signature-256'' = Some signature
      \<and> verify svc (GITHUB_WEBHOOK_SECRET e) (req_body req) signature = Inl err"
  by (cases "checkRateLimit svc (clientIP req)")
     (auto simp add: validateRequest_def Let_def split: sum.splits option.splits if_splits)

lemma fetch_rejected:
  "validateRequest svc e req = (Inr (Some r), tr) \<Longrightarrow> fetch svc gh ai brave e req = (r, tr)"
  by (simp add: fetch_def)

lemma validate_429:
  "fst (validateRequest svc e req) = Inr (Some rate_limit_response) \<Longrightarrow>
   fst (checkRateLimit svc (clientIP req))"
  by (cases "checkRateLimit svc (clientIP req)")
     (auto simp add: validateRequest_def Let_def rate_limit_response_def
        missing_env_response_def no_signature_response_def invalid_signature_response_def
        split: sum.splits option.splits if_splits)

lemma example_clientIP: "clientIP (example_request s b) = ''1.2.3.4''"
  by (simp add: clientIP_def header_def example_request_def)

lemma example_env_complete: "missingEnvVars example_env = []"
  by (simp add: missingEnvVars_def requiredEnvVars_def env_lookup_def example_env_def)

text \<open>
  Claim C1. Rate limiter threshold: for every client and every stored sequence of
  timestamps, the request is denied if and only if the number of stored timestamps
  strictly greater than \<open>now - windowSize\<close>, plus one for the current request, exceeds
  \<open>maxRequests = 100\<close>; so the 100th request of a window is allowed and the 101st denied.
  A denied request is answered with status 429 and a \<open>Retry-After\<close> header equal to the
  window size, 3600. In particular 101 stored timestamps, all 100 seconds old, give a
  denial.
\<close>

theorem rate_limit_threshold:
  assumes stored: "kv_get svc (''ratelimit:'' @ ip) = Inr (timestamps ts)"
  shows
    "(fst (checkRateLimit svc ip) \<longleftrightarrow>
        int (length (filter (\<lambda>t. t > date_now svc div 1000 - WINDOW_SIZE) ts)) + 1
          > MAX_REQUESTS)
     \<and> MAX_REQUESTS = 100 \<and> WINDOW_SIZE = 3600
     \<and> (missingEnvVars e = [] \<and> clientIP req = ip \<and> fst (checkRateLimit svc ip) \<longrightarrow>
          fst (fetch svc gh ai brave e req) = rate_limit_response)
     \<and> status rate_limit_response = 429
     \<and> map_of (resp_headers rate_limit_response) ''Retry-After'' = Some ''3600''
     \<and> (ts = replicate 101 (date_now svc div 1000 - 100) \<longrightarrow> fst (checkRateLimit svc ip))"
proof (intro conjI impI)
  show iff: "fst (checkRateLimit svc ip) \<longleftrightarrow>
        int (length (filter (\<lambda>t. t > date_now svc div 1000 - WINDOW_SIZE) ts)) + 1
          > MAX_REQUESTS"
    using stored by (rule checkRateLimit_array)
  show "MAX_REQUESTS = 100" by (simp add: MAX_REQUESTS_def)
  show "WINDOW_SIZE = 3600" by (simp add: WINDOW_SIZE_def)
  show "status rate_limit_response = 429" by (rule rate_limit_response_simps)
  show "map_of (resp_headers rate_limit_response) ''Retry-After'' = Some ''3600''"
    by (rule rate_limit_response_simps)
  {
    assume "missingEnvVars e = [] \<and> clientIP req = ip \<and> fst (checkRateLimit svc ip)"
    then have "validateRequest svc e req
        = (Inr (Some rate_limit_response), snd (checkRateLimit svc (clientIP req)))"
      by (simp add: validate_over_limit)
    then show "fst (fetch svc gh ai brave e req) = rate_limit_response"
      by (simp add: fetch_rejected)
  }
  {
    assume "ts = replicate 101 (date_now svc div 1000 - 100)"
    then have "filter (\<lambda>t. t > date_now svc div 1000 - WINDOW_SIZE) ts = ts"
      by (simp add: WINDOW_SIZE_def)
    moreover have "length ts = 101"
      using \<open>ts = replicate 101 (date_now svc div 1000 - 100)\<close> by simp
    ultimately show "fst (checkRateLimit svc ip)"
      using iff by (simp add: MAX_REQUESTS_def)
  }
qed

text \<open>
  The concrete case of the claim: 101 stored timestamps, each 100 seconds old.
\<close>

theorem rate_limit_threshold_witness:
  "kv_get (example_services (Inr (timestamps (replicate 101 1704844700))) (Inr ()))
      (''ratelimit:'' @ ''1.2.3.4'') = Inr (timestamps (replicate 101 1704844700))
   \<and> missingEnvVars example_env = []
   \<and> clientIP (example_request ''sha256=valid'' ''good'') = ''1.2.3.4''
   \<and> replicate 101 (1704844700::int)
       = replicate 101
           (date_now (example_services (Inr (timestamps (replicate 101 1704844700))) (Inr ()))
              div 1000 - 100)
   \<and> fst (checkRateLimit (example_services (Inr (timestamps (replicate 101 1704844700))) (Inr ()))
            ''1.2.3.4'')
   \<and> fst (fetch (example_services (Inr (timestamps (replicate 101 1704844700))) (Inr ()))
            (example_github 100 (Inr ())) (example_analysis True ''Looks good'')
            (example_search True [example_web_result]) example_env
            (example_request ''sha256=valid'' ''good''))
      = \<lparr>status = 429, resp_body = Text ''Rate limit exceeded'',
         resp_headers = [(''Retry-After'', ''3600'')]\<rparr>"
proof -
  let ?svc = "example_services (Inr (timestamps (replicate 101 1704844700))) (Inr ())"
  let ?req = "example_request ''sha256=valid'' ''good''"
  have stored: "kv_get ?svc (''ratelimit:'' @ ''1.2.3.4'')
      = Inr (timestamps (replicate 101 1704844700))"
    by (simp add: example_services_def)
  have now: "replicate 101 (1704844700::int) = replicate 101 (date_now ?svc div 1000 - 100)"
    by (simp add: example_services_def)
  note t = rate_limit_threshold [OF stored, of example_env ?req "example_github 100 (Inr ())"
      "example_analysis True ''Looks good''" "example_search True [example_web_result]"]
  from t now have blocked: "fst (checkRateLimit ?svc ''1.2.3.4'')" by blast
  with t example_env_complete example_clientIP
  have "fst (fetch ?svc (example_github 100 (Inr ())) (example_analysis True ''Looks good'')
            (example_search True [example_web_result]) example_env ?req) = rate_limit_response"
    by blast
  moreover have "rate_limit_response = \<lparr>status = 429, resp_body = Text ''Rate limit exceeded'',
         resp_headers = [(''Retry-After'', ''3600'')]\<rparr>"
    by (simp add: rate_limit_response_def show_int_WINDOW_SIZE)
  ultimately show ?thesis
    using stored now blocked example_env_complete example_clientIP by simp
qed

text \<open>
  Claim C4. Order of the validator's checks and short-circuiting: validation makes three checks in
  this order and returns at the first that fails. (1) A required secret that is empty
  gives a 500 response, with no call to the store and none to the signature verifier.
  (2) A denial by the rate limiter gives 429 with a \<open>Retry-After\<close> header, with no call to
  the verifier. (3) A missing signature header gives 401 without a call to the verifier,
  and a signature that the verifier rejects, called with the secret, the raw body and the
  signature, gives 401. Validation lets the request proceed exactly when all three pass,
  and a rejection is the response of the worker.
\<close>

theorem validator_gate_order:
  "(missingEnvVars e \<noteq> [] \<longleftrightarrow>
      GITHUB_TOKEN e = [] \<or> ANTHROPIC_API_KEY e = [] \<or> BRAVE_SEARCH_API_KEY e = []
      \<or> GITHUB_WEBHOOK_SECRET e = [])
   \<and> (missingEnvVars e \<noteq> [] \<longrightarrow>
        validateRequest svc e req = (Inr (Some missing_env_response), []))
   \<and> (missingEnvVars e = [] \<and> fst (checkRateLimit svc (clientIP req)) \<longrightarrow>
        validateRequest svc e req
          = (Inr (Some rate_limit_response), snd (checkRateLimit svc (clientIP req)))
        \<and> verify_calls (snd (validateRequest svc e req)) = [])
   \<and> (missingEnvVars e = [] \<and> \<not> fst (checkRateLimit svc (clientIP req))
        \<and> (header req ''x-hub-signature-256'' = None
            \<or> header req ''x-hub-signature-256'' = Some []) \<longrightarrow>
        validateRequest svc e req
          = (Inr (Some no_signature_response), snd (checkRateLimit svc (clientIP req)))
        \<and> verify_calls (snd (validateRequest svc e req)) = [])
   \<and> (missingEnvVars e = [] \<and> \<not> fst (checkRateLimit svc (clientIP req))
        \<and> header req ''x-hub-signature-256'' = Some signature \<and> signature \<noteq> []
        \<and> verify svc (GITHUB_WEBHOOK_SECRET e) (req_body req) signature = Inr False \<longrightarrow>
        validateRequest svc e req
          = (Inr (Some invalid_signature_response),
             snd (checkRateLimit svc (clientIP req))
               @ [Verify (GITHUB_WEBHOOK_SECRET e) (req_body req) signature]))
   \<and> (fst (validateRequest svc e req) = Inr None \<longleftrightarrow>
        missingEnvVars e = [] \<and> \<not> fst (checkRateLimit svc (clientIP req))
        \<and> (\<exists>s. header req ''x-hub-signature-256'' = Some s \<and> s \<noteq> []
              \<and> verify svc (GITHUB_WEBHOOK_SECRET e) (req_body req) s = Inr True))
   \<and> (\<forall>r tr. validateRequest svc e req = (Inr (Some r), tr) \<longrightarrow>
        fetch svc gh ai brave e req = (r, tr))
   \<and> status missing_env_response = 500
   \<and> status rate_limit_response = 429
   \<and> map_of (resp_headers rate_limit_response) ''Retry-After'' = Some ''3600''
   \<and> status no_signature_response = 401
   \<and> status invalid_signature_response = 401"
proof (intro conjI allI impI)
  show "missingEnvVars e \<noteq> [] \<longleftrightarrow>
      GITHUB_TOKEN e = [] \<or> ANTHROPIC_API_KEY e = [] \<or> BRAVE_SEARCH_API_KEY e = []
      \<or> GITHUB_WEBHOOK_SECRET e = []"
    by (rule missingEnvVars_iff)
  show "fst (validateRequest svc e req) = Inr None \<longleftrightarrow>
        missingEnvVars e = [] \<and> \<not> fst (checkRateLimit svc (clientIP req))
        \<and> (\<exists>s. header req ''x-hub-signature-256'' = Some s \<and> s \<noteq> []
              \<and> verify svc (GITHUB_WEBHOOK_SECRET e) (req_body req) s = Inr True)"
    by (rule validate_proceed_iff)
  show "status missing_env_response = 500" by (simp add: missing_env_response_def)
  show "status rate_limit_response = 429" by (rule rate_limit_response_simps)
  show "map_of (resp_headers rate_limit_response) ''Retry-After'' = Some ''3600''"
    by (rule rate_limit_response_simps)
  show "status no_signature_response = 401" by (simp add: no_signature_response_def)
  show "status invalid_signature_response = 401" by (simp add: invalid_signature_response_def)
next
  assume "missingEnvVars e \<noteq> []"
  then show "validateRequest svc e req = (Inr (Some missing_env_response), [])"
    by (rule validate_missing_env)
next
  assume a: "missingEnvVars e = [] \<and> fst (checkRateLimit svc (clientIP req))"
  then show v: "validateRequest svc e req
          = (Inr (Some rate_limit_response), snd (checkRateLimit svc (clientIP req)))"
    by (simp add: validate_over_limit)
  show "verify_calls (snd (validateRequest svc e req)) = []"
    unfolding v by (simp add: verify_calls_checkRateLimit)
next
  assume a: "missingEnvVars e = [] \<and> \<not> fst (checkRateLimit svc (clientIP req))
        \<and> (header req ''x-hub-signature-256'' = None
            \<or> header req ''x-hub-signature-256'' = Some [])"
  then show v: "validateRequest svc e req
          = (Inr (Some no_signature_response), snd (checkRateLimit svc (clientIP req)))"
    by (simp add: validate_no_signature)
  show "verify_calls (snd (validateRequest svc e req)) = []"
    unfolding v by (simp add: verify_calls_checkRateLimit)
next
  assume "missingEnvVars e = [] \<and> \<not> fst (checkRateLimit svc (clientIP req))
        \<and> header req ''x-hub-signature-256'' = Some signature \<and> signature \<noteq> []
        \<and> verify svc (GITHUB_WEBHOOK_SECRET e) (req_body req) signature = Inr False"
  then show "validateRequest svc e req
          = (Inr (Some invalid_signature_response),
             snd (checkRateLimit svc (clientIP req))
               @ [Verify (GITHUB_WEBHOOK_SECRET e) (req_body req) signature])"
    by (simp add: validate_verify)
next
  fix r tr assume "validateRequest svc e req = (Inr (Some r), tr)"
  then show "fetch svc gh ai brave e req = (r, tr)" by (rule fetch_rejected)
qed

text \<open>
  The five outcomes: a missing token, a full window, no signature header, a signature
  the verifier rejects, and a request that passes.
\<close>

theorem validator_gate_order_witness:
  "missingEnvVars (example_env\<lparr>GITHUB_TOKEN := []\<rparr>) \<noteq> []
   \<and> validateRequest (example_services (Inr JNull) (Inr ()))
        (example_env\<lparr>GITHUB_TOKEN := []\<rparr>) (example_request ''sha256=valid'' ''good'')
       = (Inr (Some missing_env_response), [])
   \<and> fst (checkRateLimit (example_services (Inr (timestamps (replicate 101 1704844700))) (Inr ()))
            (clientIP (example_request ''sha256=valid'' ''good'')))
   \<and> fst (validateRequest (example_services (Inr (timestamps (replicate 101 1704844700))) (Inr ()))
            example_env (example_request ''sha256=valid'' ''good''))
       = Inr (Some rate_limit_response)
   \<and> verify_calls
        (snd (validateRequest
                (example_services (Inr (timestamps (replicate 101 1704844700))) (Inr ()))
                example_env (example_request ''sha256=valid'' ''good''))) = []
   \<and> header \<lparr>req_headers = [], req_body = ''good''\<rparr> ''x-hub-signature-256'' = None
   \<and> fst (validateRequest (example_services (Inr JNull) (Inr ())) example_env
            \<lparr>req_headers = [], req_body = ''good''\<rparr>)
       = Inr (Some no_signature_response)
   \<and> verify (example_services (Inr JNull) (Inr ())) (GITHUB_WEBHOOK_SECRET example_env)
        (req_body (example_request ''sha256=invalid'' ''good'')) ''sha256=invalid'' = Inr False
   \<and> fst (validateRequest (example_services (Inr JNull) (Inr ())) example_env
            (example_request ''sha256=invalid'' ''good''))
       = Inr (Some invalid_signature_response)
   \<and> verify_calls
        (snd (validateRequest (example_services (Inr JNull) (Inr ())) example_env
                (example_request ''sha256=invalid'' ''good'')))
       = [(''secret'', ''good'', ''sha256=invalid'')]
   \<and> fst (validateRequest (example_services (Inr JNull) (Inr ())) example_env
            (example_request ''sha256=valid'' ''good'')) = Inr None"
proof -
  let ?svc = "example_services (Inr JNull) (Inr ())"
  let ?full = "example_services (Inr (timestamps (replicate 101 1704844700))) (Inr ())"
  let ?req = "example_request ''sha256=valid'' ''good''"
  let ?bad = "example_request ''sha256=invalid'' ''good''"
  let ?bare = "\<lparr>req_headers = [], req_body = ''good''\<rparr>"
  let ?gh = "example_github 100 (Inr ())"
  let ?ai = "example_analysis True ''Looks good''"
  let ?br = "example_search True [example_web_result]"
  have miss: "missingEnvVars (example_env\<lparr>GITHUB_TOKEN := []\<rparr>) \<noteq> []"
    by (simp add: missingEnvVars_def requiredEnvVars_def env_lookup_def example_env_def)
  have over: "fst (checkRateLimit ?full (clientIP ?req))"
    using checkRateLimit_array [of ?full "clientIP ?req" "replicate 101 1704844700"]
    by (simp add: example_services_def WINDOW_SIZE_def MAX_REQUESTS_def)
  have under: "\<not> fst (checkRateLimit ?svc ip)" for ip
    by (simp add: checkRateLimit_unfold Let_def example_services_def MAX_REQUESTS_def)
  have nosig: "header ?bare ''x-hub-signature-256'' = None" by (simp add: header_def)
  have badsig: "header ?bad ''x-hub-signature-256'' = Some ''sha256=invalid''"
    by (simp add: header_def example_request_def)
  have goodsig: "header ?req ''x-hub-signature-256'' = Some ''sha256=valid''"
    by (simp add: header_def example_request_def)
  have vbad: "verify ?svc (GITHUB_WEBHOOK_SECRET example_env) (req_body ?bad) ''sha256=invalid''
      = Inr False"
    by (simp add: example_services_def)
  have vgood: "verify ?svc (GITHUB_WEBHOOK_SECRET example_env) (req_body ?req) ''sha256=valid''
      = Inr True"
    by (simp add: example_services_def)
  note c = example_env_complete
  from validator_gate_order [of "example_env\<lparr>GITHUB_TOKEN := []\<rparr>" ?svc ?req] miss
  have r1: "validateRequest ?svc (example_env\<lparr>GITHUB_TOKEN := []\<rparr>) ?req
      = (Inr (Some missing_env_response), [])" by blast
  from validator_gate_order [of example_env ?full ?req] c over
  have r2: "validateRequest ?full example_env ?req
          = (Inr (Some rate_limit_response), snd (checkRateLimit ?full (clientIP ?req)))
        \<and> verify_calls (snd (validateRequest ?full example_env ?req)) = []" by blast
  from validator_gate_order [of example_env ?svc ?bare] c under nosig
  have r3: "validateRequest ?svc example_env ?bare
          = (Inr (Some no_signature_response), snd (checkRateLimit ?svc (clientIP ?bare)))"
    by blast
  from validator_gate_order [of example_env ?svc ?bad "''sha256=invalid''"] c under badsig vbad
  have r4: "validateRequest ?svc example_env ?bad
          = (Inr (Some invalid_signature_response),
             snd (checkRateLimit ?svc (clientIP ?bad))
               @ [Verify (GITHUB_WEBHOOK_SECRET example_env) (req_body ?bad) ''sha256=invalid''])"
    by blast
  have r4': "verify_calls (snd (validateRequest ?svc example_env ?bad))
      = [(''secret'', ''good'', ''sha256=invalid'')]"
    unfolding r4
    by (simp add: verify_calls_append verify_calls_checkRateLimit example_env_def
          example_request_def)
  from validator_gate_order [of example_env ?svc ?req] c under goodsig vgood
  have r5: "fst (validateRequest ?svc example_env ?req) = Inr None" by blast
  from r2 have r2a: "fst (validateRequest ?full example_env ?req)
      = Inr (Some rate_limit_response)" by simp
  from r2 have r2b: "verify_calls (snd (validateRequest ?full example_env ?req)) = []"
    by blast
  from r3 have r3a: "fst (validateRequest ?svc example_env ?bare)
      = Inr (Some no_signature_response)" by simp
  from r4 have r4a: "fst (validateRequest ?svc example_env ?bad)
      = Inr (Some invalid_signature_response)" by simp
  from miss over nosig vbad r1 r2a r2b r3a r4a r4' r5 show ?thesis by blast
qed

text \<open>
  Claim C5, as stated, has a malformed stored value treated as an empty sequence of
  timestamps, so that it never causes a denial. It does not hold for a stored array:
  every array passes \<open>Array.isArray\<close> and its elements are compared as they are. With
  100 stored strings \<open>"1704844700"\<close> and the clock at 1704844800, each string converts to
  a number inside the window, 101 entries are counted, and the request is denied with
  429, where an empty sequence would have allowed it.
\<close>

theorem rate_limiter_fails_open_counterexample:
  "kv_get (example_services (Inr (JArr (replicate 100 (JStr ''1704844700'')))) (Inr ()))
      (''ratelimit:'' @ ''1.2.3.4'') = Inr (JArr (replicate 100 (JStr ''1704844700'')))
   \<and> fst (checkRateLimit
            (example_services (Inr (JArr (replicate 100 (JStr ''1704844700'')))) (Inr ()))
            ''1.2.3.4'')
   \<and> \<not> fst (checkRateLimit
            ((example_services (Inr (JArr (replicate 100 (JStr ''1704844700'')))) (Inr ()))
               \<lparr>kv_get := (\<lambda>key. Inr (JArr []))\<rparr>)
            ''1.2.3.4'')
   \<and> fst (validateRequest
            (example_services (Inr (JArr (replicate 100 (JStr ''1704844700'')))) (Inr ()))
            example_env (example_request ''sha256=valid'' ''good''))
       = Inr (Some rate_limit_response)"
proof -
  let ?svc = "example_services (Inr (JArr (replicate 100 (JStr ''1704844700'')))) (Inr ())"
  let ?req = "example_request ''sha256=valid'' ''good''"
  have stored: "kv_get ?svc (''ratelimit:'' @ ''1.2.3.4'')
      = Inr (JArr (replicate 100 (JStr ''1704844700'')))"
    by (simp add: example_services_def)
  have now: "date_now ?svc div 1000 - WINDOW_SIZE = 1704841200"
    by (simp add: example_services_def WINDOW_SIZE_def)
  have kept: "filter_after (date_now ?svc div 1000 - WINDOW_SIZE)
      (replicate 100 (JStr ''1704844700'')) = Inr (replicate 100 (JStr ''1704844700''))"
    unfolding now by (rule filter_after_replicate) (rule example_numeric_string_after)
  have denied: "fst (checkRateLimit ?svc ''1.2.3.4'')"
    by (simp add: checkRateLimit_kept [OF stored kept] MAX_REQUESTS_def)
  have empty: "\<not> fst (checkRateLimit (?svc\<lparr>kv_get := (\<lambda>key. Inr (JArr []))\<rparr>) ''1.2.3.4'')"
    by (simp add: checkRateLimit_unfold Let_def MAX_REQUESTS_def)
  have "fst (validateRequest ?svc example_env ?req) = Inr (Some rate_limit_response)"
    using denied by (simp add: validate_over_limit example_env_complete example_clientIP)
  with stored denied empty show ?thesis by blast
qed

text \<open>
  Claim C5, amended. The rate limiter fails open: for every client, a failed read of the
  store or a stored value that is not an array (an absent key included) is treated as an
  empty sequence of timestamps, and the request is allowed; a failed write is ignored,
  the decision and the calls are the same whatever the write does; and an error thrown
  during the admit operation, which is a stored array element that cannot be converted
  for the comparison, results in an allow decision, with the write skipped. Store read and
  write failures never cause a denial and never fail the request: the only throw of the
  validator is a throw of the signature verifier. A stored array is used whatever its
  elements are.
\<close>

theorem rate_limiter_fails_open:
  "(kv_get svc (''ratelimit:'' @ ip) = Inl err
      \<or> (\<exists>v. kv_get svc (''ratelimit:'' @ ip) = Inr v \<and> \<not> is_array v) \<longrightarrow>
      checkRateLimit svc ip = checkRateLimit (svc\<lparr>kv_get := (\<lambda>key. Inr (JArr []))\<rparr>) ip
      \<and> \<not> fst (checkRateLimit svc ip)
      \<and> (clientIP req = ip \<longrightarrow>
            fst (validateRequest svc e req) \<noteq> Inr (Some rate_limit_response)))
   \<and> checkRateLimit (svc\<lparr>kv_put := put'\<rparr>) ip = checkRateLimit svc ip
   \<and> (\<forall>es thrown. kv_get svc (''ratelimit:'' @ ip) = Inr (JArr es)
         \<and> filter_after (date_now svc div 1000 - WINDOW_SIZE) es = Inl thrown \<longrightarrow>
         checkRateLimit svc ip = (False, [KvGet (''ratelimit:'' @ ip)]))
   \<and> (\<forall>es kept. kv_get svc (''ratelimit:'' @ ip) = Inr (JArr es)
         \<and> filter_after (date_now svc div 1000 - WINDOW_SIZE) es = Inr kept \<longrightarrow>
         (fst (checkRateLimit svc ip) \<longleftrightarrow> int (length kept) + 1 > MAX_REQUESTS))
   \<and> (\<forall>x. fst (validateRequest svc e req) = Inl x \<longrightarrow>
         (\<exists>s. header req ''x-hub-signature-256'' = Some s
              \<and> verify svc (GITHUB_WEBHOOK_SECRET e) (req_body req) s = Inl x))"
proof (intro conjI allI impI)
  show "checkRateLimit (svc\<lparr>kv_put := put'\<rparr>) ip = checkRateLimit svc ip"
    by (rule checkRateLimit_put_irrelevant)
next
  fix x assume "fst (validateRequest svc e req) = Inl x"
  then show "\<exists>s. header req ''x-hub-signature-256'' = Some s
              \<and> verify svc (GITHUB_WEBHOOK_SECRET e) (req_body req) s = Inl x"
    by (rule validate_throws)
next
  fix es thrown
  assume "kv_get svc (''ratelimit:'' @ ip) = Inr (JArr es)
         \<and> filter_after (date_now svc div 1000 - WINDOW_SIZE) es = Inl thrown"
  then show "checkRateLimit svc ip = (False, [KvGet (''ratelimit:'' @ ip)])"
    by (simp add: checkRateLimit_thrown)
next
  fix es kept
  assume "kv_get svc (''ratelimit:'' @ ip) = Inr (JArr es)
         \<and> filter_after (date_now svc div 1000 - WINDOW_SIZE) es = Inr kept"
  then show "fst (checkRateLimit svc ip) \<longleftrightarrow> int (length kept) + 1 > MAX_REQUESTS"
    by (simp add: checkRateLimit_kept)
next
  assume bad: "kv_get svc (''ratelimit:'' @ ip) = Inl err
      \<or> (\<exists>v. kv_get svc (''ratelimit:'' @ ip) = Inr v \<and> \<not> is_array v)"
  from checkRateLimit_no_array [OF bad]
  show allow: "\<not> fst (checkRateLimit svc ip)" by simp
  have "checkRateLimit (svc\<lparr>kv_get := (\<lambda>key. Inr (JArr []))\<rparr>) ip =
     (False, [KvGet (''ratelimit:'' @ ip),
              KvPut (''ratelimit:'' @ ip) [JNum (of_int (date_now svc div 1000))] WINDOW_SIZE])"
    by (simp add: checkRateLimit_unfold Let_def MAX_REQUESTS_def)
  with checkRateLimit_no_array [OF bad] show "checkRateLimit svc ip
      = checkRateLimit (svc\<lparr>kv_get := (\<lambda>key. Inr (JArr []))\<rparr>) ip"
    by simp
  {
    assume "clientIP req = ip"
    with allow show "fst (validateRequest svc e req) \<noteq> Inr (Some rate_limit_response)"
      using validate_429 [of svc e req] by blast
  }
qed

text \<open>
  Three stores on the example request: one whose reads and writes both fail, one that
  holds an object instead of an array, and one that holds an array with an element that
  cannot be converted. Each time the request is allowed.
\<close>

theorem rate_limiter_fails_open_witness:
  "kv_get (example_services (Inl (Error ''KV unavailable'')) (Inl (Error ''KV unavailable'')))
      (''ratelimit:'' @ ''1.2.3.4'') = Inl (Error ''KV unavailable'')
   \<and> clientIP (example_request ''sha256=valid'' ''good'') = ''1.2.3.4''
   \<and> \<not> fst (checkRateLimit
          (example_services (Inl (Error ''KV unavailable'')) (Inl (Error ''KV unavailable'')))
          ''1.2.3.4'')
   \<and> fst (validateRequest
          (example_services (Inl (Error ''KV unavailable'')) (Inl (Error ''KV unavailable'')))
          example_env (example_request ''sha256=valid'' ''good'')) = Inr None
   \<and> fst (validateRequest
          (example_services (Inl (Error ''KV unavailable'')) (Inl (Error ''KV unavailable'')))
          example_env (example_request ''sha256=valid'' ''good''))
       \<noteq> Inr (Some rate_limit_response)
   \<and> kv_get (example_services (Inr (JObj [(''count'', JNum 500)])) (Inr ()))
        (''ratelimit:'' @ ''1.2.3.4'') = Inr (JObj [(''count'', JNum 500)])
   \<and> \<not> is_array (JObj [(''count'', JNum 500)])
   \<and> \<not> fst (checkRateLimit (example_services (Inr (JObj [(''count'', JNum 500)])) (Inr ()))
          ''1.2.3.4'')
   \<and> kv_get (example_services (Inr (JArr [JObj [(''toString'', JNum 1)]])) (Inr ()))
        (''ratelimit:'' @ ''1.2.3.4'') = Inr (JArr [JObj [(''toString'', JNum 1)]])
   \<and> filter_after
        (date_now (example_services (Inr (JArr [JObj [(''toString'', JNum 1)]])) (Inr ()))
           div 1000 - WINDOW_SIZE)
        [JObj [(''toString'', JNum 1)]]
       = Inl (Error ''Cannot convert object to primitive value'')
   \<and> checkRateLimit (example_services (Inr (JArr [JObj [(''toString'', JNum 1)]])) (Inr ()))
        ''1.2.3.4'' = (False, [KvGet ''ratelimit:1.2.3.4''])"
proof -
  let ?down = "example_services (Inl (Error ''KV unavailable'')) (Inl (Error ''KV unavailable''))"
  let ?obj = "example_services (Inr (JObj [(''count'', JNum 500)])) (Inr ())"
  let ?odd = "example_services (Inr (JArr [JObj [(''toString'', JNum 1)]])) (Inr ())"
  let ?req = "example_request ''sha256=valid'' ''good''"
  have down: "kv_get ?down (''ratelimit:'' @ ''1.2.3.4'') = Inl (Error ''KV unavailable'')"
    by (simp add: example_services_def)
  have obj: "kv_get ?obj (''ratelimit:'' @ ''1.2.3.4'') = Inr (JObj [(''count'', JNum 500)])"
    by (simp add: example_services_def)
  have noarr: "\<not> is_array (JObj [(''count'', JNum 500)])" by (simp add: is_array_def)
  have odd: "kv_get ?odd (''ratelimit:'' @ ''1.2.3.4'')
      = Inr (JArr [JObj [(''toString'', JNum 1)]])"
    by (simp add: example_services_def)
  have thrown: "filter_after (date_now ?odd div 1000 - WINDOW_SIZE)
      [JObj [(''toString'', JNum 1)]] = Inl (Error ''Cannot convert object to primitive value'')"
    by (simp add: example_unconvertible)
  have ip: "clientIP ?req = ''1.2.3.4''" by (rule example_clientIP)
  note t1 = rate_limiter_fails_open [of ?down "''1.2.3.4''" "Error ''KV unavailable''" ?req
      example_env "kv_put ?down"]
  from t1 down have a: "\<not> fst (checkRateLimit ?down ''1.2.3.4'')" by blast
  from t1 down ip
  have b: "fst (validateRequest ?down example_env ?req) \<noteq> Inr (Some rate_limit_response)"
    by blast
  have sig: "header ?req ''x-hub-signature-256'' = Some ''sha256=valid''"
    by (simp add: header_def example_request_def)
  have ver: "verify ?down (GITHUB_WEBHOOK_SECRET example_env) (req_body ?req) ''sha256=valid''
      = Inr True"
    by (simp add: example_services_def)
  from a sig ver have ok: "fst (validateRequest ?down example_env ?req) = Inr None"
    by (simp add: validate_proceed_iff example_env_complete ip)
  note t2 = rate_limiter_fails_open [of ?obj "''1.2.3.4''" "Error ''KV unavailable''" ?req
      example_env "kv_put ?obj"]
  from t2 obj noarr have c: "\<not> fst (checkRateLimit ?obj ''1.2.3.4'')" by blast
  note t3 = rate_limiter_fails_open [of ?odd "''1.2.3.4''" "Error ''KV unavailable''" ?req
      example_env "kv_put ?odd"]
  from t3 odd thrown
  have d: "checkRateLimit ?odd ''1.2.3.4'' = (False, [KvGet (''ratelimit:'' @ ''1.2.3.4'')])"
    by blast
  then have d': "checkRateLimit ?odd ''1.2.3.4'' = (False, [KvGet ''ratelimit:1.2.3.4''])"
    by simp
  from down ip a ok b obj noarr c odd thrown d' show ?thesis by blast
qed

section \<open>The worker: properties\<close>

lemma comment_bodies_append:
  "comment_bodies (xs @ ys) = comment_bodies xs @ comment_bodies ys"
  by (induction xs rule: comment_bodies.induct) simp_all

lemma comment_bodies_validateRequest: "comment_bodies (snd (validateRequest svc e req)) = []"
  using comment_bodies_checkRateLimit [of svc "clientIP req"]
  by (cases "checkRateLimit svc (clientIP req)")
     (auto simp add: validateRequest_def Let_def comment_bodies_append
        split: sum.splits option.splits if_splits)

lemma str_includes_prefix: "str_includes (p @ ys) p"
  by (cases "p @ ys") (simp_all add: starts_with_def, metis append_eq_conv_conj)

lemma str_includes_append: "str_includes (xs @ p @ ys) p"
proof (induction xs)
  case Nil
  show ?case using str_includes_prefix by simp
next
  case (Cons x xs)
  then show ?case by simp
qed

lemma error_comment_includes: "str_includes (error_comment r) r"
proof -
  have "error_comment r =
    (cross_mark @ '' Error checking article:'' @ nl @ ''```'' @ nl) @ r
    @ (nl @ ''```'' @ nl @ ''Please try again later or contact support if the issue persists.'')"
    by (simp add: error_comment_def)
  then show ?thesis by (simp only: str_includes_append)
qed

lemma article_check_composed:
  "fetch_content_with_timeout gh d = Inr content \<Longrightarrow> analyzeArticle ai content = Inr a \<Longrightarrow>
   factCheck brave content = Inr fc \<Longrightarrow>
   article_check svc gh ai brave iss com d =
     (case createComment gh (owner d) (repo d) (issue_number iss)
             (report_comment svc com a fc) of
        Inl err \<Rightarrow> Inl err
      | Inr u \<Rightarrow> Inr completed_response,
      [CreateComment (owner d) (repo d) (issue_number iss) processing_comment,
       CreateComment (owner d) (repo d) (issue_number iss) (report_comment svc com a fc)])"
  by (simp add: article_check_def Let_def split: sum.splits)

lemma fetch_trigger:
  assumes valid: "fst (validateRequest svc e req) = Inr None"
    and parse: "json_parse svc (req_body req) = Object payload"
    and trig: "is_trigger payload iss com pr"
    and url: "pr_url pr = Some prUrl" "prUrl \<noteq> []"
  shows "fetch svc gh ai brave e req =
     (case extractPRDetails prUrl of
        Inl err \<Rightarrow> (internal_error_response, snd (validateRequest svc e req))
      | Inr d \<Rightarrow>
          (case run_article_check svc gh ai brave iss com d of
             (Inl err, tr') \<Rightarrow> (internal_error_response, snd (validateRequest svc e req) @ tr')
           | (Inr r, tr') \<Rightarrow> (r, snd (validateRequest svc e req) @ tr')))"
proof -
  from trig have f: "issue_field payload = Some iss" "comment_field payload = Some com"
    "action payload = Some ''created''" "pull_request iss = Some pr"
    "comment_body com \<noteq> []" "str_includes (comment_body com) ''/articlecheck''"
    by (simp_all add: is_trigger_def)
  have h: "handle_event svc gh ai brave req =
     (case extractPRDetails prUrl of
        Inl err \<Rightarrow> (Inl err, [])
      | Inr d \<Rightarrow> run_article_check svc gh ai brave iss com d)"
    by (simp add: handle_event_def parse f url)
  obtain tr where v: "validateRequest svc e req = (Inr None, tr)"
    using valid by (cases "validateRequest svc e req") simp
  show ?thesis
    by (simp add: fetch_def v h split: sum.splits prod.splits)
qed

lemma run_article_check_failed:
  assumes "fst (article_check svc gh ai brave iss com d) = Inl err"
  shows "run_article_check svc gh ai brave iss com d =
     (case createComment gh (owner d) (repo d) (issue_number iss)
             (error_comment (error_message err)) of
        Inl err' \<Rightarrow> Inl err'
      | Inr u \<Rightarrow> Inr (failed_response (error_message err)),
      snd (article_check svc gh ai brave iss com d)
        @ [CreateComment (owner d) (repo d) (issue_number iss)
             (error_comment (error_message err))])"
  using assms
  by (cases "article_check svc gh ai brave iss com d")
     (auto simp add: run_article_check_def article_check_failed_def Let_def split: sum.splits)

lemma run_article_check_ok:
  assumes "fst (article_check svc gh ai brave iss com d) = Inr r"
  shows "run_article_check svc gh ai brave iss com d =
     (Inr r, snd (article_check svc gh ai brave iss com d))"
  using assms
  by (cases "article_check svc gh ai brave iss com d") (auto simp add: run_article_check_def)

lemma article_check_timeout:
  "content_latency_ms gh \<ge> 30000 \<Longrightarrow>
   article_check svc gh ai brave iss com d =
     (Inl (Error ''Timeout''),
      [CreateComment (owner d) (repo d) (issue_number iss) processing_comment])"
  by (simp add: article_check_def fetch_content_with_timeout_def)

lemma article_check_analysis_failed:
  "fetch_content_with_timeout gh d = Inr content \<Longrightarrow> analyzeArticle ai content = Inl err \<Longrightarrow>
   article_check svc gh ai brave iss com d =
     (Inl err, [CreateComment (owner d) (repo d) (issue_number iss) processing_comment])"
  by (simp add: article_check_def)

lemma article_check_fact_check_failed:
  "fetch_content_with_timeout gh d = Inr content \<Longrightarrow> analyzeArticle ai content = Inr a \<Longrightarrow>
   factCheck brave content = Inl err \<Longrightarrow>
   article_check svc gh ai brave iss com d =
     (Inl err, [CreateComment (owner d) (repo d) (issue_number iss) processing_comment])"
  by (simp add: article_check_def)

lemma example_validated:
  "fst (validateRequest (example_services (Inr JNull) (Inr ())) example_env
          (example_request ''sha256=valid'' b)) = Inr None"
  by (simp add: validate_proceed_iff example_env_complete header_def example_request_def
        checkRateLimit_unfold Let_def example_services_def MAX_REQUESTS_def)

lemma example_parse_good:
  "json_parse (example_services stored written) (req_body (example_request s ''good''))
     = Object (example_payload example_url)"
  by (simp add: example_services_def example_request_def example_url_def)

lemma example_parse_odd:
  "json_parse (example_services stored written) (req_body (example_request s ''odd''))
     = Object (example_payload ''https://invalid-url'')"
  by (simp add: example_services_def example_request_def)

lemma example_is_trigger:
  "is_trigger (example_payload u) (example_issue u) example_comment (example_pr u)"
  by (simp add: is_trigger_def example_payload_def example_issue_def example_comment_def
        example_pr_def starts_with_def)

lemma example_details_eq: "extractPRDetails example_url = Inr example_details"
  by code_simp

lemma example_pr_url: "pr_url (example_pr u) = Some u"
  by (simp add: example_pr_def)

lemma example_url_nonempty: "example_url \<noteq> []"
  by (simp add: example_url_def)

lemma example_fetch_good:
  "fetch (example_services (Inr JNull) (Inr ())) gh ai brave example_env
     (example_request ''sha256=valid'' ''good'') =
   (case run_article_check (example_services (Inr JNull) (Inr ())) gh ai brave
           (example_issue example_url) example_comment example_details of
      (Inl err, tr') \<Rightarrow>
        (internal_error_response,
         snd (validateRequest (example_services (Inr JNull) (Inr ())) example_env
                (example_request ''sha256=valid'' ''good'')) @ tr')
    | (Inr r, tr') \<Rightarrow>
        (r, snd (validateRequest (example_services (Inr JNull) (Inr ())) example_env
                (example_request ''sha256=valid'' ''good'')) @ tr'))"
  using fetch_trigger [OF example_validated example_parse_good example_is_trigger
      example_pr_url example_url_nonempty, of gh ai brave]
  by (simp add: example_details_eq)

lemma example_content:
  "l < 30000 \<Longrightarrow> fetch_content_with_timeout (example_github l posted) example_details
     = Inr example_text"
  by (simp add: fetch_content_with_timeout_def getPRContent_def example_github_def
        ends_with_def starts_with_def)

lemma example_issue_number: "issue_number (example_issue u) = 123"
  by (simp add: example_issue_def)

lemma example_createComment: "createComment (example_github l posted) ow rp n b = posted"
  by (simp add: createComment_def example_github_def)

lemma example_factCheck:
  "factCheck (example_search True [example_web_result]) example_text
     = Inr [\<lparr>claim = example_claim, references = [example_reference]\<rparr>]"
  by code_simp

lemma example_factCheck_failed:
  "factCheck (example_search False []) example_text
     = Inl (Error ''Brave search failed: Internal Server Error'')"
  by code_simp

lemma example_analyzeArticle:
  "analyzeArticle (example_analysis success t) content =
     (if success then Inr t
      else Inl (Error ''Claude API error: Internal Server Error - API Error''))"
  by (simp add: analyzeArticle_def example_analysis_def)

text \<open>
  Claim C2, as stated, has the worker return 500 with the body \<open>{error: r}\<close> even when
  posting the error comment fails. It does not: the error comment is awaited inside the
  inner \<open>catch\<close> block, so its failure reaches the outer handler. With a content fetch
  that times out and a comment API that rejects, the body is
  \<open>{error: "Internal server error"}\<close>, not \<open>{error: "Timeout"}\<close>.
\<close>

theorem failed_state_response_counterexample:
  "fst (validateRequest (example_services (Inr JNull) (Inr ())) example_env
          (example_request ''sha256=valid'' ''good'')) = Inr None
   \<and> json_parse (example_services (Inr JNull) (Inr ()))
        (req_body (example_request ''sha256=valid'' ''good''))
       = Object (example_payload example_url)
   \<and> is_trigger (example_payload example_url) (example_issue example_url) example_comment
        (example_pr example_url)
   \<and> extractPRDetails example_url = Inr example_details
   \<and> createComment (example_github 30000 (Inl (Error ''Bad credentials''))) ''owner'' ''repo''
        123 (error_comment ''Timeout'') = Inl (Error ''Bad credentials'')
   \<and> fst (article_check (example_services (Inr JNull) (Inr ()))
            (example_github 30000 (Inl (Error ''Bad credentials'')))
            (example_analysis True ''Looks good'') (example_search True [example_web_result])
            (example_issue example_url) example_comment example_details)
       = Inl (Error ''Timeout'')
   \<and> resp_body
        (fst (fetch (example_services (Inr JNull) (Inr ()))
                (example_github 30000 (Inl (Error ''Bad credentials'')))
                (example_analysis True ''Looks good'') (example_search True [example_web_result])
                example_env (example_request ''sha256=valid'' ''good'')))
       = Json [(''error'', ''Internal server error'')]
   \<and> resp_body
        (fst (fetch (example_services (Inr JNull) (Inr ()))
                (example_github 30000 (Inl (Error ''Bad credentials'')))
                (example_analysis True ''Looks good'') (example_search True [example_web_result])
                example_env (example_request ''sha256=valid'' ''good'')))
       \<noteq> Json [(''error'', ''Timeout'')]"
proof -
  let ?svc = "example_services (Inr JNull) (Inr ())"
  let ?gh = "example_github 30000 (Inl (Error ''Bad credentials''))"
  let ?ai = "example_analysis True ''Looks good''"
  let ?br = "example_search True [example_web_result]"
  have late: "content_latency_ms ?gh \<ge> 30000" by (simp add: example_github_def)
  have ac: "fst (article_check ?svc ?gh ?ai ?br (example_issue example_url) example_comment
      example_details) = Inl (Error ''Timeout'')"
    by (simp add: article_check_timeout [OF late])
  have rc: "fst (run_article_check ?svc ?gh ?ai ?br (example_issue example_url) example_comment
      example_details) = Inl (Error ''Bad credentials'')"
    by (simp add: run_article_check_failed [OF ac] example_createComment)
  have "fst (fetch ?svc ?gh ?ai ?br example_env (example_request ''sha256=valid'' ''good''))
      = internal_error_response"
    using rc by (auto simp add: example_fetch_good split: prod.splits sum.splits)
  then show ?thesis
    using ac example_validated example_parse_good example_is_trigger example_details_eq
    by (simp add: internal_error_response_def example_createComment)
qed

text \<open>
  Claim C2, amended. For a validated trigger event with a well-formed pull request URL,
  when a step of the article check (the content fetch or its 30 second timeout, the
  analysis, the fact check, posting the report) fails with reason \<open>r\<close>, the last call of
  the worker posts an error comment whose body contains \<open>r\<close>, and the response has status
  500. When that post succeeds the body is \<open>{error: r}\<close>; when the post itself fails, a
  500 response is still returned, with the body \<open>{error: "Internal server error"}\<close>.
  A content fetch that has not settled after 30 seconds gives the reason \<open>Timeout\<close>.
\<close>

theorem failed_state_response:
  assumes valid: "fst (validateRequest svc e req) = Inr None"
    and parse: "json_parse svc (req_body req) = Object payload"
    and trig: "is_trigger payload iss com pr"
    and url: "pr_url pr = Some prUrl" "prUrl \<noteq> []"
    and details: "extractPRDetails prUrl = Inr d"
    and fail: "fst (article_check svc gh ai brave iss com d) = Inl err"
  shows
    "last (snd (fetch svc gh ai brave e req))
       = CreateComment (owner d) (repo d) (issue_number iss) (error_comment (error_message err))
     \<and> str_includes (error_comment (error_message err)) (error_message err)
     \<and> (createComment gh (owner d) (repo d) (issue_number iss)
           (error_comment (error_message err)) = Inr () \<longrightarrow>
          fst (fetch svc gh ai brave e req) = failed_response (error_message err))
     \<and> (\<forall>err'. createComment gh (owner d) (repo d) (issue_number iss)
           (error_comment (error_message err)) = Inl err' \<longrightarrow>
          fst (fetch svc gh ai brave e req) = internal_error_response)
     \<and> status (fst (fetch svc gh ai brave e req)) = 500
     \<and> resp_body (failed_response (error_message err)) = Json [(''error'', error_message err)]
     \<and> resp_body internal_error_response = Json [(''error'', ''Internal server error'')]
     \<and> (content_latency_ms gh \<ge> 30000 \<longrightarrow> error_message err = ''Timeout'')"
proof -
  let ?post = "createComment gh (owner d) (repo d) (issue_number iss)
                 (error_comment (error_message err))"
  let ?ev = "CreateComment (owner d) (repo d) (issue_number iss)
               (error_comment (error_message err))"
  let ?tr = "snd (validateRequest svc e req) @ snd (article_check svc gh ai brave iss com d)
               @ [?ev]"
  from fetch_trigger [OF valid parse trig url, of gh ai brave] details
    run_article_check_failed [OF fail]
  have f: "fetch svc gh ai brave e req =
      (case ?post of
         Inl err' \<Rightarrow> (internal_error_response, ?tr)
       | Inr u \<Rightarrow> (failed_response (error_message err), ?tr))"
    by (simp split: sum.splits)
  have a: "last (snd (fetch svc gh ai brave e req)) = ?ev"
    unfolding f by (simp split: sum.splits)
  have b: "?post = Inr () \<longrightarrow>
      fst (fetch svc gh ai brave e req) = failed_response (error_message err)"
    unfolding f by simp
  have c: "\<forall>err'. ?post = Inl err' \<longrightarrow>
      fst (fetch svc gh ai brave e req) = internal_error_response"
    unfolding f by simp
  have d: "status (fst (fetch svc gh ai brave e req)) = 500"
    unfolding f
    by (simp add: failed_response_def internal_error_response_def split: sum.splits)
  have t: "content_latency_ms gh \<ge> 30000 \<longrightarrow> error_message err = ''Timeout''"
  proof
    assume "content_latency_ms gh \<ge> 30000"
    from article_check_timeout [OF this, of svc ai brave iss com d] fail
    show "error_message err = ''Timeout''" by (auto simp add: error_message_def)
  qed
  from a b c d t error_comment_includes [of "error_message err"]
  show ?thesis by (simp add: failed_response_def internal_error_response_def)
qed

text \<open>
  A content fetch that times out, first with a comment API that accepts the error
  comment, then with one that rejects it.
\<close>

theorem failed_state_response_witness:
  "fst (validateRequest (example_services (Inr JNull) (Inr ())) example_env
          (example_request ''sha256=valid'' ''good'')) = Inr None
   \<and> json_parse (example_services (Inr JNull) (Inr ()))
        (req_body (example_request ''sha256=valid'' ''good''))
       = Object (example_payload example_url)
   \<and> is_trigger (example_payload example_url) (example_issue example_url) example_comment
        (example_pr example_url)
   \<and> pr_url (example_pr example_url) = Some example_url
   \<and> extractPRDetails example_url = Inr example_details
   \<and> fst (article_check (example_services (Inr JNull) (Inr ())) (example_github 30000 (Inr ()))
            (example_analysis True ''Looks good'') (example_search True [example_web_result])
            (example_issue example_url) example_comment example_details)
       = Inl (Error ''Timeout'')
   \<and> fst (fetch (example_services (Inr JNull) (Inr ())) (example_github 30000 (Inr ()))
            (example_analysis True ''Looks good'') (example_search True [example_web_result])
            example_env (example_request ''sha256=valid'' ''good''))
       = failed_response ''Timeout''
   \<and> last (snd (fetch (example_services (Inr JNull) (Inr ())) (example_github 30000 (Inr ()))
            (example_analysis True ''Looks good'') (example_search True [example_web_result])
            example_env (example_request ''sha256=valid'' ''good'')))
       = CreateComment ''owner'' ''repo'' 123 (error_comment ''Timeout'')
   \<and> fst (fetch (example_services (Inr JNull) (Inr ()))
            (example_github 30000 (Inl (Error ''Bad credentials'')))
            (example_analysis True ''Looks good'') (example_search True [example_web_result])
            example_env (example_request ''sha256=valid'' ''good''))
       = internal_error_response"
proof -
  let ?svc = "example_services (Inr JNull) (Inr ())"
  let ?req = "example_request ''sha256=valid'' ''good''"
  let ?ai = "example_analysis True ''Looks good''"
  let ?br = "example_search True [example_web_result]"
  have ac: "fst (article_check ?svc (example_github 30000 posted) ?ai ?br
      (example_issue example_url) example_comment example_details) = Inl (Error ''Timeout'')"
    for posted
    by (simp add: article_check_timeout example_github_def)
  have late: "content_latency_ms (example_github 30000 posted) \<ge> 30000" for posted
    by (simp add: example_github_def)
  note t1 = failed_state_response [OF example_validated example_parse_good example_is_trigger
      example_pr_url example_url_nonempty example_details_eq ac [of "Inr ()"]]
  note t2 = failed_state_response [OF example_validated example_parse_good example_is_trigger
      example_pr_url example_url_nonempty example_details_eq
      ac [of "Inl (Error ''Bad credentials'')"]]
  have m: "error_message (Error ''Timeout'') = ''Timeout''" by (simp add: error_message_def)
  from t1 have r1: "fst (fetch ?svc (example_github 30000 (Inr ())) ?ai ?br example_env ?req)
      = failed_response ''Timeout''"
    by (simp add: example_createComment m)
  from t1 have r2: "last (snd (fetch ?svc (example_github 30000 (Inr ())) ?ai ?br
      example_env ?req)) = CreateComment ''owner'' ''repo'' 123 (error_comment ''Timeout'')"
    by (simp add: m example_details_def example_issue_number)
  from t2 have r3: "fst (fetch ?svc (example_github 30000 (Inl (Error ''Bad credentials'')))
      ?ai ?br example_env ?req) = internal_error_response"
    by (simp add: example_createComment m)
  from r1 r2 r3 example_validated [of "''good''"]
    example_parse_good [of "Inr JNull" "Inr ()" "''sha256=valid''"]
    example_is_trigger [of example_url] example_pr_url [of example_url] example_details_eq
    ac [of "Inr ()"]
  show ?thesis by blast
qed

text \<open>
  Claim C3, as stated, has a failure of the analysis call tolerated: a placeholder in
  the report, the report published, status 200. It is not: \<open>analyzeArticle\<close> throws on a
  non-success status and the throw reaches the inner \<open>catch\<close> block like any other. With
  a content fetch and a fact check that succeed and an analysis API that answers 500, the
  worker returns 500 and posts the acknowledgment and an error comment, no report.
\<close>

theorem analysis_failure_counterexample:
  "fst (validateRequest (example_services (Inr JNull) (Inr ())) example_env
          (example_request ''sha256=valid'' ''good'')) = Inr None
   \<and> fetch_content_with_timeout (example_github 100 (Inr ())) example_details
       = Inr example_text
   \<and> analyzeArticle (example_analysis False ''Looks good'') example_text
       = Inl (Error ''Claude API error: Internal Server Error - API Error'')
   \<and> factCheck (example_search True [example_web_result]) example_text
       = Inr [\<lparr>claim = example_claim, references = [example_reference]\<rparr>]
   \<and> status
        (fst (fetch (example_services (Inr JNull) (Inr ())) (example_github 100 (Inr ()))
                (example_analysis False ''Looks good'') (example_search True [example_web_result])
                example_env (example_request ''sha256=valid'' ''good''))) = 500
   \<and> status
        (fst (fetch (example_services (Inr JNull) (Inr ())) (example_github 100 (Inr ()))
                (example_analysis False ''Looks good'') (example_search True [example_web_result])
                example_env (example_request ''sha256=valid'' ''good''))) \<noteq> 200
   \<and> comment_bodies
        (snd (fetch (example_services (Inr JNull) (Inr ())) (example_github 100 (Inr ()))
                (example_analysis False ''Looks good'') (example_search True [example_web_result])
                example_env (example_request ''sha256=valid'' ''good'')))
       = [processing_comment,
          error_comment ''Claude API error: Internal Server Error - API Error'']"
proof -
  let ?svc = "example_services (Inr JNull) (Inr ())"
  let ?gh = "example_github 100 (Inr ())"
  let ?ai = "example_analysis False ''Looks good''"
  let ?br = "example_search True [example_web_result]"
  let ?msg = "''Claude API error: Internal Server Error - API Error''"
  have content: "fetch_content_with_timeout ?gh example_details = Inr example_text"
    by (simp add: example_content)
  have an: "analyzeArticle ?ai example_text = Inl (Error ?msg)"
    by (simp add: analyzeArticle_def example_analysis_def)
  note ac = article_check_analysis_failed [OF content an, of ?svc ?br
      "example_issue example_url" example_comment]
  have rc: "run_article_check ?svc ?gh ?ai ?br (example_issue example_url) example_comment
      example_details
      = (Inr (failed_response ?msg),
         [CreateComment ''owner'' ''repo'' 123 processing_comment,
          CreateComment ''owner'' ''repo'' 123 (error_comment ?msg)])"
    using ac
    by (simp add: run_article_check_failed example_createComment error_message_def
          example_issue_number example_details_def)
  have f: "fetch ?svc ?gh ?ai ?br example_env (example_request ''sha256=valid'' ''good'')
      = (failed_response ?msg,
         snd (validateRequest ?svc example_env (example_request ''sha256=valid'' ''good''))
         @ [CreateComment ''owner'' ''repo'' 123 processing_comment,
            CreateComment ''owner'' ''repo'' 123 (error_comment ?msg)])"
    by (simp add: example_fetch_good rc)
  have "comment_bodies (snd (fetch ?svc ?gh ?ai ?br example_env
      (example_request ''sha256=valid'' ''good'')))
      = [processing_comment, error_comment ?msg]"
    unfolding f by (simp add: comment_bodies_append comment_bodies_validateRequest)
  moreover have "status (fst (fetch ?svc ?gh ?ai ?br example_env
      (example_request ''sha256=valid'' ''good''))) = 500"
    unfolding f by (simp add: failed_response_def)
  ultimately show ?thesis
    using content an example_validated example_factCheck by simp
qed

text \<open>
  Claim C3, amended. For a validated trigger event whose content fetch succeeds, a
  failure of the analysis call and a failure of the fact-check engine both propagate as
  a pipeline failure: status 500, and the comments posted are the acknowledgment and an
  error comment with the reason, no report. When both calls succeed the report is
  composed and posted: it embeds the analysis text as returned, and the placeholder
  \<open>*Error: Could not generate analysis*\<close> stands in its place if and only if the analysis
  text is empty, the rest of the report being the same. When the post of the report
  succeeds the status is 200; when it fails, the failure propagates as a pipeline
  failure like the others.
\<close>

theorem analysis_fact_check_failures:
  assumes valid: "fst (validateRequest svc e req) = Inr None"
    and parse: "json_parse svc (req_body req) = Object payload"
    and trig: "is_trigger payload iss com pr"
    and url: "pr_url pr = Some prUrl" "prUrl \<noteq> []"
    and details: "extractPRDetails prUrl = Inr d"
    and content: "fetch_content_with_timeout gh d = Inr content"
  shows
    "(\<forall>err. analyzeArticle ai content = Inl err \<longrightarrow>
        status (fst (fetch svc gh ai brave e req)) = 500
        \<and> comment_bodies (snd (fetch svc gh ai brave e req))
            = [processing_comment, error_comment (error_message err)])
     \<and> (\<forall>a err. analyzeArticle ai content = Inr a \<and> factCheck brave content = Inl err \<longrightarrow>
        status (fst (fetch svc gh ai brave e req)) = 500
        \<and> comment_bodies (snd (fetch svc gh ai brave e req))
            = [processing_comment, error_comment (error_message err)])
     \<and> (\<forall>a fc. analyzeArticle ai content = Inr a \<and> factCheck brave content = Inr fc \<longrightarrow>
        (\<exists>tail.
            report_comment svc com a fc
              = ''## Article Check Results'' @ nl @ nl @ ''### AI Analysis'' @ nl
                @ (if a = [] then ''*Error: Could not generate analysis*'' else a) @ tail
            \<and> report_comment svc com [] fc
              = ''## Article Check Results'' @ nl @ nl @ ''### AI Analysis'' @ nl
                @ ''*Error: Could not generate analysis*'' @ tail)
        \<and> take 2 (comment_bodies (snd (fetch svc gh ai brave e req)))
            = [processing_comment, report_comment svc com a fc]
        \<and> (createComment gh (owner d) (repo d) (issue_number iss)
              (report_comment svc com a fc) = Inr () \<longrightarrow>
             fst (fetch svc gh ai brave e req) = completed_response
             \<and> comment_bodies (snd (fetch svc gh ai brave e req))
                 = [processing_comment, report_comment svc com a fc])
        \<and> (\<forall>err. createComment gh (owner d) (repo d) (issue_number iss)
              (report_comment svc com a fc) = Inl err \<longrightarrow>
             status (fst (fetch svc gh ai brave e req)) = 500
             \<and> comment_bodies (snd (fetch svc gh ai brave e req))
                 = [processing_comment, report_comment svc com a fc,
                    error_comment (error_message err)]))
     \<and> status completed_response = 200
     \<and> analysis_placeholder = ''*Error: Could not generate analysis*''"
proof -
  note ft = fetch_trigger [OF valid parse trig url, of gh ai brave]
  have failed: "status (fst (fetch svc gh ai brave e req)) = 500
        \<and> comment_bodies (snd (fetch svc gh ai brave e req))
            = comment_bodies tr @ [error_comment (error_message err)]"
    if ac: "article_check svc gh ai brave iss com d = (Inl err, tr)"
    for err tr
  proof -
    from ac have "fst (article_check svc gh ai brave iss com d) = Inl err" by simp
    from run_article_check_failed [OF this] ac ft details
    show ?thesis
      by (simp add: comment_bodies_append comment_bodies_validateRequest failed_response_def
            internal_error_response_def split: sum.splits)
  qed
  have a: "\<forall>err. analyzeArticle ai content = Inl err \<longrightarrow>
        status (fst (fetch svc gh ai brave e req)) = 500
        \<and> comment_bodies (snd (fetch svc gh ai brave e req))
            = [processing_comment, error_comment (error_message err)]"
  proof (intro allI impI)
    fix err assume "analyzeArticle ai content = Inl err"
    from failed [OF article_check_analysis_failed [OF content this]]
    show "status (fst (fetch svc gh ai brave e req)) = 500
        \<and> comment_bodies (snd (fetch svc gh ai brave e req))
            = [processing_comment, error_comment (error_message err)]"
      by simp
  qed
  have b: "\<forall>a err. analyzeArticle ai content = Inr a \<and> factCheck brave content = Inl err \<longrightarrow>
        status (fst (fetch svc gh ai brave e req)) = 500
        \<and> comment_bodies (snd (fetch svc gh ai brave e req))
            = [processing_comment, error_comment (error_message err)]"
  proof (intro allI impI)
    fix a err
    assume h: "analyzeArticle ai content = Inr a \<and> factCheck brave content = Inl err"
    then have "article_check svc gh ai brave iss com d =
      (Inl err, [CreateComment (owner d) (repo d) (issue_number iss) processing_comment])"
      by (simp add: article_check_fact_check_failed [OF content])
    from failed [OF this]
    show "status (fst (fetch svc gh ai brave e req)) = 500
        \<and> comment_bodies (snd (fetch svc gh ai brave e req))
            = [processing_comment, error_comment (error_message err)]"
      by simp
  qed
  have split: "\<exists>tail.
            report_comment svc com a fc
              = ''## Article Check Results'' @ nl @ nl @ ''### AI Analysis'' @ nl
                @ (if a = [] then ''*Error: Could not generate analysis*'' else a) @ tail
            \<and> report_comment svc com [] fc
              = ''## Article Check Results'' @ nl @ nl @ ''### AI Analysis'' @ nl
                @ ''*Error: Could not generate analysis*'' @ tail"
    for a fc
    by (rule exI [of _ "nl @ nl @ ''### Fact Checking Results'' @ nl
          @ (if length fc > 0 then join nl (map render_result fc)
             else ''*No claims to fact check*'') @ nl @ nl
          @ ''---'' @ nl
          @ ''*This check was performed automatically by the Article Checker bot.*'' @ nl
          @ ''*Processing time: '' @ processing_time svc com @ ''ms*''"])
       (simp add: report_comment_def analysis_placeholder_def)
  have c: "\<forall>a fc. analyzeArticle ai content = Inr a \<and> factCheck brave content = Inr fc \<longrightarrow>
        (\<exists>tail.
            report_comment svc com a fc
              = ''## Article Check Results'' @ nl @ nl @ ''### AI Analysis'' @ nl
                @ (if a = [] then ''*Error: Could not generate analysis*'' else a) @ tail
            \<and> report_comment svc com [] fc
              = ''## Article Check Results'' @ nl @ nl @ ''### AI Analysis'' @ nl
                @ ''*Error: Could not generate analysis*'' @ tail)
        \<and> take 2 (comment_bodies (snd (fetch svc gh ai brave e req)))
            = [processing_comment, report_comment svc com a fc]
        \<and> (createComment gh (owner d) (repo d) (issue_number iss)
              (report_comment svc com a fc) = Inr () \<longrightarrow>
             fst (fetch svc gh ai brave e req) = completed_response
             \<and> comment_bodies (snd (fetch svc gh ai brave e req))
                 = [processing_comment, report_comment svc com a fc])
        \<and> (\<forall>err. createComment gh (owner d) (repo d) (issue_number iss)
              (report_comment svc com a fc) = Inl err \<longrightarrow>
             status (fst (fetch svc gh ai brave e req)) = 500
             \<and> comment_bodies (snd (fetch svc gh ai brave e req))
                 = [processing_comment, report_comment svc com a fc,
                    error_comment (error_message err)])"
  proof (intro allI impI)
    fix a fc
    assume h: "analyzeArticle ai content = Inr a \<and> factCheck brave content = Inr fc"
    let ?report = "report_comment svc com a fc"
    let ?post = "createComment gh (owner d) (repo d) (issue_number iss) ?report"
    let ?tr = "[CreateComment (owner d) (repo d) (issue_number iss) processing_comment,
               CreateComment (owner d) (repo d) (issue_number iss) ?report]"
    from h have composed: "article_check svc gh ai brave iss com d =
        (case ?post of Inl err \<Rightarrow> Inl err | Inr u \<Rightarrow> Inr completed_response, ?tr)"
      by (simp add: article_check_composed [OF content])
    have ok: "fst (fetch svc gh ai brave e req) = completed_response
             \<and> comment_bodies (snd (fetch svc gh ai brave e req))
                 = [processing_comment, ?report]"
      if post: "?post = Inr ()"
    proof -
      from composed post have "fst (article_check svc gh ai brave iss com d)
          = Inr completed_response" by simp
      from run_article_check_ok [OF this] composed ft details
      show ?thesis
        by (simp add: comment_bodies_append comment_bodies_validateRequest)
    qed
    have bad: "status (fst (fetch svc gh ai brave e req)) = 500
             \<and> comment_bodies (snd (fetch svc gh ai brave e req))
                 = [processing_comment, ?report, error_comment (error_message err)]"
      if post: "?post = Inl err" for err
    proof -
      from composed post have "article_check svc gh ai brave iss com d = (Inl err, ?tr)"
        by simp
      from failed [OF this] show ?thesis by simp
    qed
    have two: "take 2 (comment_bodies (snd (fetch svc gh ai brave e req)))
        = [processing_comment, ?report]"
    proof (cases ?post)
      case (Inl err)
      from bad [OF this] show ?thesis by simp
    next
      case (Inr u)
      then have "?post = Inr ()" by simp
      from ok [OF this] show ?thesis by simp
    qed
    from split [of a fc] two ok bad
    show "(\<exists>tail.
            report_comment svc com a fc
              = ''## Article Check Results'' @ nl @ nl @ ''### AI Analysis'' @ nl
                @ (if a = [] then ''*Error: Could not generate analysis*'' else a) @ tail
            \<and> report_comment svc com [] fc
              = ''## Article Check Results'' @ nl @ nl @ ''### AI Analysis'' @ nl
                @ ''*Error: Could not generate analysis*'' @ tail)
        \<and> take 2 (comment_bodies (snd (fetch svc gh ai brave e req)))
            = [processing_comment, report_comment svc com a fc]
        \<and> (createComment gh (owner d) (repo d) (issue_number iss)
              (report_comment svc com a fc) = Inr () \<longrightarrow>
             fst (fetch svc gh ai brave e req) = completed_response
             \<and> comment_bodies (snd (fetch svc gh ai brave e req))
                 = [processing_comment, report_comment svc com a fc])
        \<and> (\<forall>err. createComment gh (owner d) (repo d) (issue_number iss)
              (report_comment svc com a fc) = Inl err \<longrightarrow>
             status (fst (fetch svc gh ai brave e req)) = 500
             \<and> comment_bodies (snd (fetch svc gh ai brave e req))
                 = [processing_comment, report_comment svc com a fc,
                    error_comment (error_message err)])"
      by blast
  qed
  have s: "status completed_response = 200" by (simp add: completed_response_def)
  have p: "analysis_placeholder = ''*Error: Could not generate analysis*''"
    by (simp add: analysis_placeholder_def)
  from a b c s p show ?thesis by blast
qed

text \<open>
  Four runs on the example event: the analysis API answers 500; the search API answers
  500; the analysis comes back empty; the analysis comes back with a text.
\<close>

theorem analysis_fact_check_failures_witness:
  "fst (validateRequest (example_services (Inr JNull) (Inr ())) example_env
          (example_request ''sha256=valid'' ''good'')) = Inr None
   \<and> json_parse (example_services (Inr JNull) (Inr ()))
        (req_body (example_request ''sha256=valid'' ''good''))
       = Object (example_payload example_url)
   \<and> is_trigger (example_payload example_url) (example_issue example_url) example_comment
        (example_pr example_url)
   \<and> pr_url (example_pr example_url) = Some example_url
   \<and> extractPRDetails example_url = Inr example_details
   \<and> fetch_content_with_timeout (example_github 100 (Inr ())) example_details
       = Inr example_text
   \<and> analyzeArticle (example_analysis False '''') example_text
       = Inl (Error ''Claude API error: Internal Server Error - API Error'')
   \<and> status (fst (fetch (example_services (Inr JNull) (Inr ())) (example_github 100 (Inr ()))
            (example_analysis False '''') (example_search True [example_web_result])
            example_env (example_request ''sha256=valid'' ''good''))) = 500
   \<and> analyzeArticle (example_analysis True ''Looks good'') example_text = Inr ''Looks good''
   \<and> factCheck (example_search False []) example_text
       = Inl (Error ''Brave search failed: Internal Server Error'')
   \<and> comment_bodies
        (snd (fetch (example_services (Inr JNull) (Inr ())) (example_github 100 (Inr ()))
            (example_analysis True ''Looks good'') (example_search False [])
            example_env (example_request ''sha256=valid'' ''good'')))
       = [processing_comment, error_comment ''Brave search failed: Internal Server Error'']
   \<and> analyzeArticle (example_analysis True '''') example_text = Inr ''''
   \<and> factCheck (example_search True [example_web_result]) example_text
       = Inr [\<lparr>claim = example_claim, references = [example_reference]\<rparr>]
   \<and> fst (fetch (example_services (Inr JNull) (Inr ())) (example_github 100 (Inr ()))
            (example_analysis True '''') (example_search True [example_web_result])
            example_env (example_request ''sha256=valid'' ''good''))
       = completed_response
   \<and> comment_bodies
        (snd (fetch (example_services (Inr JNull) (Inr ())) (example_github 100 (Inr ()))
            (example_analysis True '''') (example_search True [example_web_result])
            example_env (example_request ''sha256=valid'' ''good'')))
       = [processing_comment,
          report_comment (example_services (Inr JNull) (Inr ())) example_comment ''''
            [\<lparr>claim = example_claim, references = [example_reference]\<rparr>]]
   \<and> fst (fetch (example_services (Inr JNull) (Inr ())) (example_github 100 (Inr ()))
            (example_analysis True ''Looks good'') (example_search True [example_web_result])
            example_env (example_request ''sha256=valid'' ''good''))
       = completed_response
   \<and> comment_bodies
        (snd (fetch (example_services (Inr JNull) (Inr ())) (example_github 100 (Inr ()))
            (example_analysis True ''Looks good'') (example_search True [example_web_result])
            example_env (example_request ''sha256=valid'' ''good'')))
       = [processing_comment,
          report_comment (example_services (Inr JNull) (Inr ())) example_comment
            ''Looks good'' [\<lparr>claim = example_claim, references = [example_reference]\<rparr>]]"
proof -
  let ?svc = "example_services (Inr JNull) (Inr ())"
  let ?req = "example_request ''sha256=valid'' ''good''"
  let ?gh = "example_github 100 (Inr ())"
  let ?ok = "example_search True [example_web_result]"
  let ?fc = "[\<lparr>claim = example_claim, references = [example_reference]\<rparr>]"
  have content: "fetch_content_with_timeout ?gh example_details = Inr example_text"
    by (simp add: example_content)
  note t = analysis_fact_check_failures [OF example_validated example_parse_good
      example_is_trigger example_pr_url example_url_nonempty example_details_eq content]
  have a1: "analyzeArticle (example_analysis False '''') example_text
       = Inl (Error ''Claude API error: Internal Server Error - API Error'')"
    by (simp add: example_analyzeArticle)
  have a2: "analyzeArticle (example_analysis True ''Looks good'') example_text
       = Inr ''Looks good''"
    by (simp add: example_analyzeArticle)
  have a3: "analyzeArticle (example_analysis True '''') example_text = Inr ''''"
    by (simp add: example_analyzeArticle)
  have post: "createComment ?gh (owner example_details) (repo example_details)
      (issue_number (example_issue example_url)) (report_comment ?svc example_comment a ?fc)
      = Inr ()" for a
    by (simp add: example_createComment)
  from t [of "example_analysis False ''''" ?ok] a1
  have r1: "status (fst (fetch ?svc ?gh (example_analysis False '''') ?ok example_env ?req))
      = 500"
    by blast
  from t [of "example_analysis True ''Looks good''" "example_search False []"] a2
    example_factCheck_failed
  have "comment_bodies (snd (fetch ?svc ?gh (example_analysis True ''Looks good'')
      (example_search False []) example_env ?req))
      = [processing_comment,
         error_comment (error_message (Error ''Brave search failed: Internal Server Error''))]"
    by blast
  then have r2: "comment_bodies (snd (fetch ?svc ?gh (example_analysis True ''Looks good'')
      (example_search False []) example_env ?req))
      = [processing_comment, error_comment ''Brave search failed: Internal Server Error'']"
    by (simp add: error_message_def)
  from t [of "example_analysis True ''''" ?ok] a3 example_factCheck post [of "''''"]
  have r3: "fst (fetch ?svc ?gh (example_analysis True '''') ?ok example_env ?req)
        = completed_response
      \<and> comment_bodies (snd (fetch ?svc ?gh (example_analysis True '''') ?ok example_env ?req))
        = [processing_comment, report_comment ?svc example_comment [] ?fc]"
    by blast
  from t [of "example_analysis True ''Looks good''" ?ok] a2 example_factCheck
    post [of "''Looks good''"]
  have r4: "fst (fetch ?svc ?gh (example_analysis True ''Looks good'') ?ok example_env ?req)
        = completed_response
      \<and> comment_bodies (snd (fetch ?svc ?gh (example_analysis True ''Looks good'') ?ok
          example_env ?req))
        = [processing_comment, report_comment ?svc example_comment ''Looks good'' ?fc]"
    by blast
  from r1 r2 r3 r4 a1 a2 a3 content example_factCheck example_factCheck_failed
    example_validated [of "''good''"]
    example_parse_good [of "Inr JNull" "Inr ()" "''sha256=valid''"]
    example_is_trigger [of example_url] example_pr_url [of example_url] example_details_eq
  show ?thesis by blast
qed

text \<open>
  Claim C10. A pull request URL of another shape: for a validated trigger event whose
  pull request URL is not empty and does not match \<open>repos/{owner}/{repo}/pulls/{number}\<close>,
  \<open>extractPRDetails\<close> throws before the inner \<open>try\<close> is entered, so the worker returns 500
  with the body \<open>{error: "Internal server error"}\<close> and posts no comment at all, neither
  the acknowledgment nor an error comment; the 400 response \<open>Invalid PR URL\<close> is not
  returned for such a URL.
\<close>

theorem malformed_pr_url:
  assumes valid: "fst (validateRequest svc e req) = Inr None"
    and parse: "json_parse svc (req_body req) = Object payload"
    and trig: "is_trigger payload iss com pr"
    and url: "pr_url pr = Some prUrl" "prUrl \<noteq> []"
    and shape: "regex_match prUrl = None"
  shows "extractPRDetails prUrl = Inl (Error ''Invalid PR URL format'')
     \<and> fst (fetch svc gh ai brave e req) = internal_error_response
     \<and> status internal_error_response = 500
     \<and> resp_body internal_error_response = Json [(''error'', ''Internal server error'')]
     \<and> comment_bodies (snd (fetch svc gh ai brave e req)) = []
     \<and> fst (fetch svc gh ai brave e req) \<noteq> invalid_pr_url_response"
proof -
  from shape have ex: "extractPRDetails prUrl = Inl (Error ''Invalid PR URL format'')"
    by (simp add: extractPRDetails_def)
  from fetch_trigger [OF valid parse trig url, of gh ai brave] ex
  have f: "fetch svc gh ai brave e req
      = (internal_error_response, snd (validateRequest svc e req))"
    by simp
  from f have "comment_bodies (snd (fetch svc gh ai brave e req)) = []"
    by (simp add: comment_bodies_validateRequest)
  moreover have "internal_error_response \<noteq> invalid_pr_url_response"
    by (simp add: internal_error_response_def invalid_pr_url_response_def)
  ultimately show ?thesis
    using ex f by (simp add: internal_error_response_def)
qed

text \<open>
  The URL \<open>https://invalid-url\<close> of the repository's own test of \<open>extractPRDetails\<close>.
\<close>

theorem malformed_pr_url_witness:
  "fst (validateRequest (example_services (Inr JNull) (Inr ())) example_env
          (example_request ''sha256=valid'' ''odd'')) = Inr None
   \<and> json_parse (example_services (Inr JNull) (Inr ()))
        (req_body (example_request ''sha256=valid'' ''odd''))
       = Object (example_payload ''https://invalid-url'')
   \<and> is_trigger (example_payload ''https://invalid-url'') (example_issue ''https://invalid-url'')
        example_comment (example_pr ''https://invalid-url'')
   \<and> pr_url (example_pr ''https://invalid-url'') = Some ''https://invalid-url''
   \<and> regex_match ''https://invalid-url'' = None
   \<and> fst (fetch (example_services (Inr JNull) (Inr ())) (example_github 100 (Inr ()))
            (example_analysis True ''Looks good'') (example_search True [example_web_result])
            example_env (example_request ''sha256=valid'' ''odd''))
       = \<lparr>status = 500, resp_body = Json [(''error'', ''Internal server error'')],
          resp_headers = [(''Content-Type'', ''application/json'')]\<rparr>
   \<and> comment_bodies
        (snd (fetch (example_services (Inr JNull) (Inr ())) (example_github 100 (Inr ()))
                (example_analysis True ''Looks good'') (example_search True [example_web_result])
                example_env (example_request ''sha256=valid'' ''odd''))) = []"
proof -
  let ?u = "''https://invalid-url''"
  have url: "pr_url (example_pr ?u) = Some ?u" by (simp add: example_pr_def)
  have ne: "?u \<noteq> []" by simp
  have shape: "regex_match ?u = None" by code_simp
  note t = malformed_pr_url [OF example_validated example_parse_odd example_is_trigger url ne
      shape, of "example_github 100 (Inr ())" "example_analysis True ''Looks good''"
      "example_search True [example_web_result]"]
  have ie: "internal_error_response
      = \<lparr>status = 500, resp_body = Json [(''error'', ''Internal server error'')],
          resp_headers = [(''Content-Type'', ''application/json'')]\<rparr>"
    by (simp add: internal_error_response_def json_headers_def)
  from t ie example_validated example_parse_odd example_is_trigger url shape
  show ?thesis by simp
qed

end
